theory Spec2Isabelle
  imports Complex_Main "HOL-Library.Monad_Syntax"
begin

section \<open>Granule cell models: the morphology builder and the parameter tables\<close>

text \<open>
  A shallow embedding of \<^verbatim>\<open>dbbs_models/granule_cell_models.py\<close>.

  Conventions of the model.
  \<^item> Python floats and the decimal literals of the source are read as exact real numbers
    (\<open>16.62232\<close> is the rational \<open>1662232 / 100000\<close>); Python ints are \<open>int\<close>.
  \<^item> A \<^verbatim>\<open>numpy\<close> position is an array of three floats or of three integers (type
    \<open>ndarray\<close> below); 64-bit integers are read as unbounded integers.
    \<^verbatim>\<open>position + [a, b, c]\<close> is the componentwise sum, a new array of floats.
  \<^item> Python objects are shared by reference. Every \<^verbatim>\<open>p.Section()\<close> that is created is
    stored in a heap (a list, in creation order) and is referred to by its index there,
    so that a section that was put into \<^verbatim>\<open>self.axon\<close> and is mutated afterwards is
    the same section.
  \<^item> A Python exception (a missing attribute, an index out of range, a division by zero)
    is the result \<open>None\<close>.
\<close>

subsection \<open>Numbers, vectors and lists as Python has them\<close>

type_synonym vec3 = "real \<times> real \<times> real"

definition vadd :: "vec3 \<Rightarrow> vec3 \<Rightarrow> vec3" where
  "vadd p q = (case p of (px, py, pz) \<Rightarrow> case q of (qx, qy, qz) \<Rightarrow> (px + qx, py + qy, pz + qz))"

definition vx :: "vec3 \<Rightarrow> real" where
  "vx p = (case p of (x, y, z) \<Rightarrow> x)"

definition vy :: "vec3 \<Rightarrow> real" where
  "vy p = (case p of (x, y, z) \<Rightarrow> y)"

definition vz :: "vec3 \<Rightarrow> real" where
  "vz p = (case p of (x, y, z) \<Rightarrow> z)"

text \<open>
  A \<^verbatim>\<open>numpy\<close> array of three numbers has a dtype: it holds floats, or it holds integers
  (as \<^verbatim>\<open>np.array([0, 0, 1])\<close> does). \<open>coords\<close> reads all three entries as floats,
  which is what \<^verbatim>\<open>a + [x, y, z]\<close> with a list of floats and the conversion of a point for
  \<^verbatim>\<open>add_3d\<close> do.
\<close>

datatype ndarray = Float64 vec3 | Int64 "int \<times> int \<times> int"

definition coords :: "ndarray \<Rightarrow> vec3" where
  "coords a =
     (case a of Float64 v \<Rightarrow> v
      | Int64 v \<Rightarrow> (case v of (x, y, z) \<Rightarrow> (real_of_int x, real_of_int y, real_of_int z)))"

text \<open>\<^verbatim>\<open>a[0]\<close>, \<^verbatim>\<open>a[1]\<close> and \<^verbatim>\<open>a[2]\<close>; the source uses these three constant indices only.\<close>

definition item0 :: "ndarray \<Rightarrow> real" where
  "item0 a = vx (coords a)"

definition item1 :: "ndarray \<Rightarrow> real" where
  "item1 a = vy (coords a)"

definition item2 :: "ndarray \<Rightarrow> real" where
  "item2 a = vz (coords a)"

text \<open>\<^verbatim>\<open>int(x)\<close> on a float truncates towards zero.\<close>

definition py_int :: "real \<Rightarrow> int" where
  "py_int x = (if x < 0 then \<lceil>x\<rceil> else \<lfloor>x\<rfloor>)"

text \<open>
  \<^verbatim>\<open>a[0] = v\<close> and \<^verbatim>\<open>a[1] = v\<close> with a float \<open>v\<close>, in place. The array keeps its
  dtype: an array of integers stores the float truncated towards zero. An augmented
  assignment \<^verbatim>\<open>a[0] += d\<close> is \<^verbatim>\<open>a[0] = a[0] + d\<close>.
\<close>

definition setitem0 :: "ndarray \<Rightarrow> real \<Rightarrow> ndarray" where
  "setitem0 a v =
     (case a of Float64 u \<Rightarrow> (case u of (x, y, z) \<Rightarrow> Float64 (v, y, z))
      | Int64 u \<Rightarrow> (case u of (x, y, z) \<Rightarrow> Int64 (py_int v, y, z)))"

definition setitem1 :: "ndarray \<Rightarrow> real \<Rightarrow> ndarray" where
  "setitem1 a v =
     (case a of Float64 u \<Rightarrow> (case u of (x, y, z) \<Rightarrow> Float64 (x, v, z))
      | Int64 u \<Rightarrow> (case u of (x, y, z) \<Rightarrow> Int64 (x, py_int v, z)))"

text \<open>\<^verbatim>\<open>a / b\<close> on two ints: true division, \<^verbatim>\<open>ZeroDivisionError\<close> when \<open>b = 0\<close>.\<close>

definition truediv :: "int \<Rightarrow> int \<Rightarrow> real option" where
  "truediv a b = (if b = 0 then None else Some (real_of_int a / real_of_int b))"

text \<open>\<^verbatim>\<open>range(n)\<close> and \<^verbatim>\<open>enumerate(xs)\<close>.\<close>

definition range_py :: "int \<Rightarrow> int list" where
  "range_py n = map int [0..<nat n]"

definition enumerate_py :: "'a list \<Rightarrow> (int \<times> 'a) list" where
  "enumerate_py xs = zip (map int [0..<length xs]) xs"

text \<open>\<^verbatim>\<open>xs[i]\<close>: a negative index counts from the end, \<^verbatim>\<open>IndexError\<close> out of range.\<close>

definition index :: "'a list \<Rightarrow> int \<Rightarrow> 'a option" where
  "index xs i =
     (if 0 \<le> i \<and> i < int (length xs) then Some (xs ! nat i)
      else if i < 0 \<and> - int (length xs) \<le> i then Some (xs ! nat (int (length xs) + i))
      else None)"

text \<open>\<^verbatim>\<open>str(x)\<close> on an int: its decimal digits.\<close>

function str_nat :: "nat \<Rightarrow> string" where
  "str_nat n =
     (if n < 10 then [''0123456789'' ! n]
      else str_nat (n div 10) @ [''0123456789'' ! (n mod 10)])"
  by pat_completeness auto
termination
  by (relation "measure (\<lambda>n. n)") auto

declare str_nat.simps [simp del]

definition str :: "int \<Rightarrow> string" where
  "str i = (if i < 0 then CHR ''-'' # str_nat (nat (- i)) else str_nat (nat i))"

text \<open>A \<^verbatim>\<open>for\<close> loop whose body may raise: the loop stops at the first exception.\<close>

fun for_loop :: "('s \<Rightarrow> 'a \<Rightarrow> 's option) \<Rightarrow> 's \<Rightarrow> 'a list \<Rightarrow> 's option" where
  "for_loop body s [] = Some s"
| "for_loop body s (x # xs) =
     (case body s x of None \<Rightarrow> None | Some s' \<Rightarrow> for_loop body s' xs)"

subsection \<open>Sections\<close>

text \<open>
  Modelled from the spec: the class \<^verbatim>\<open>Section\<close> of the external package \<^verbatim>\<open>patch\<close> is not
  part of the sources. Following the data model of the specification, a compartment has
  a length, a diameter, a segment count, an ordered sequence of 3-D points, a list of
  labels and a parent connection (a compartment and an attachment end). The model keeps
  what the builder hands to the section: a field is \<open>None\<close> as long as the builder has
  not set it (the simulator's default then applies), and the attachment end of a
  connection is \<open>None\<close> when \<^verbatim>\<open>connect\<close> is called without one.
\<close>

type_synonym ref = nat

record section_obj =
  name :: "string option"
  L :: "real option"
  diam :: "real option"
  nseg :: "int option"
  pts3d :: "vec3 list"
  labels :: "string list"
  parent :: "(ref \<times> int option) option"

definition Section :: "string option \<Rightarrow> section_obj" where
  "Section nm =
     \<lparr>name = nm, L = None, diam = None, nseg = None, pts3d = [], labels = [], parent = None\<rparr>"

definition set_dimensions :: "real \<Rightarrow> real \<Rightarrow> section_obj \<Rightarrow> section_obj" where
  "set_dimensions len d s = s\<lparr>L := Some len, diam := Some d\<rparr>"

definition set_segments :: "int \<Rightarrow> section_obj \<Rightarrow> section_obj" where
  "set_segments n s = s\<lparr>nseg := Some n\<rparr>"

definition add_3d :: "vec3 list \<Rightarrow> section_obj \<Rightarrow> section_obj" where
  "add_3d ps s = s\<lparr>pts3d := pts3d s @ ps\<rparr>"

definition connect :: "ref \<Rightarrow> int option \<Rightarrow> section_obj \<Rightarrow> section_obj" where
  "connect target e s = s\<lparr>parent := Some (target, e)\<rparr>"

definition set_labels :: "string list \<Rightarrow> section_obj \<Rightarrow> section_obj" where
  "set_labels ls s = s\<lparr>labels := ls\<rparr>"

subsection \<open>The model object\<close>

text \<open>
  The attributes of \<^verbatim>\<open>self\<close> that the builder reads or writes. \<^verbatim>\<open>position\<close> is set by
  the caller (\<open>new_model P\<close> is a fresh object at an array of floats); every other attribute is \<open>None\<close> until a build step assigns it, and reading
  it before is an \<^verbatim>\<open>AttributeError\<close>.
\<close>

record model =
  heap :: "section_obj list"
  position :: ndarray
  fiber_section_length :: "int option"
  fiber_segment_length :: "int option"
  ascending_axon_length :: "int option"
  parallel_fiber_length :: "int option"
  soma :: "ref list option"
  dend :: "ref list option"
  axon :: "ref list option"
  axon_hillock :: "ref option"
  axon_initial_segment :: "ref option"
  ascending_axon :: "ref option"
  y_pf :: "real option"
  parallel_fiber :: "ref list option"

definition new_model :: "vec3 \<Rightarrow> model" where
  "new_model P =
     \<lparr>heap = [], position = Float64 P,
      fiber_section_length = None, fiber_segment_length = None,
      ascending_axon_length = None, parallel_fiber_length = None,
      soma = None, dend = None, axon = None, axon_hillock = None,
      axon_initial_segment = None, ascending_axon = None, y_pf = None,
      parallel_fiber = None\<rparr>"

text \<open>Creating a section, reading it and mutating it through a reference.\<close>

definition new_Section :: "string option \<Rightarrow> model \<Rightarrow> ref \<times> model" where
  "new_Section nm self = (length (heap self), self\<lparr>heap := heap self @ [Section nm]\<rparr>)"

definition sec :: "model \<Rightarrow> ref \<Rightarrow> section_obj" where
  "sec self r = heap self ! r"

definition upd :: "ref \<Rightarrow> (section_obj \<Rightarrow> section_obj) \<Rightarrow> model \<Rightarrow> model" where
  "upd r f self = self\<lparr>heap := (heap self)[r := f (heap self ! r)]\<rparr>"

text \<open>\<^verbatim>\<open>self.soma[0]\<close>.\<close>

definition soma0 :: "model \<Rightarrow> ref option" where
  "soma0 self = do { s \<leftarrow> soma self; index s 0 }"

subsection \<open>The build steps\<close>

definition build_soma :: "model \<Rightarrow> model option" where
  "build_soma self0 = do {
     let (r, self) = new_Section None self0;
     let self = self\<lparr>soma := Some [r]\<rparr>;
     s \<leftarrow> soma0 self;
     let self = upd s (set_dimensions 5.62232 5.8) self;
     s \<leftarrow> soma0 self;
     let self = upd s (set_segments 1) self;
     s \<leftarrow> soma0 self;
     Some (upd s
       (add_3d [coords (position self), vadd (coords (position self)) (0, 5.62232, 0)]) self)
   }"

text \<open>
  The inner loop of \<^verbatim>\<open>build_dendrites\<close>: ten copies of the dendrite's position, in the
  \<open>j\<close>-th \<^verbatim>\<open>pt[1] -= dendrite.L * j / 10\<close>. A copy has the dtype of the position.
\<close>

definition dendrite_points :: "ndarray \<Rightarrow> real \<Rightarrow> ndarray list" where
  "dendrite_points dendrite_position len =
     map (\<lambda>j. let pt = dendrite_position in setitem1 pt (item1 pt - len * real_of_int j / 10))
       (range_py 10)"

definition dendrite_body :: "model \<Rightarrow> int \<Rightarrow> model option" where
  "dendrite_body self0 i = do {
     let (dendrite, self) = new_Section None self0;
     d \<leftarrow> dend self;
     let self = self\<lparr>dend := Some (d @ [dendrite])\<rparr>;
     let dendrite_position = position self;
     let dendrite_position =
       setitem0 dendrite_position (item0 dendrite_position + (real_of_int i - 1.5) * 2);
     let self = upd dendrite (set_dimensions 15 0.75) self;
     len \<leftarrow> L (sec self dendrite);
     let points = dendrite_points dendrite_position len;
     let self = upd dendrite (add_3d (map (\<lambda>p. (item0 p, item1 p, item2 p)) points)) self;
     s \<leftarrow> soma0 self;
     Some (upd dendrite (connect s (Some 0)) self)
   }"

definition build_dendrites :: "model \<Rightarrow> model option" where
  "build_dendrites self = for_loop dendrite_body (self\<lparr>dend := Some []\<rparr>) (range_py 4)"

definition build_hillock :: "model \<Rightarrow> model option" where
  "build_hillock self0 = do {
     let (hillock, self) = new_Section None self0;
     let self = upd hillock (set_dimensions 1 1.5) self;
     let self = upd hillock (set_segments 1) self;
     let self = upd hillock
       (add_3d [vadd (coords (position self)) (0, 5.62232, 0),
                vadd (coords (position self)) (0, 6.62232, 0)]) self;
     let self = upd hillock (set_labels [''axon_hillock'']) self;
     s \<leftarrow> soma0 self;
     let self = upd hillock (connect s (Some 0)) self;
     let (ais, self) = new_Section (Some ''axon_initial_segment'') self;
     let self = upd ais (set_labels [''axon_initial_segment'']) self;
     let self = upd ais (set_dimensions 10 0.7) self;
     let self = upd ais (set_segments 1) self;
     let self = upd ais
       (add_3d [vadd (coords (position self)) (0, 6.62232, 0),
                vadd (coords (position self)) (0, 16.62232, 0)]) self;
     let self = upd ais (connect hillock (Some 1)) self;
     Some (self\<lparr>axon := Some [hillock, ais], axon_hillock := Some hillock,
       axon_initial_segment := Some ais\<rparr>)
   }"

definition fraction :: "real list" where
  "fraction = [0.0, 0.1, 0.2, 0.3, 0.4, 0.5, 0.6, 0.7, 0.8, 0.9, 1.0]"

definition build_ascending_axon :: "model \<Rightarrow> model option" where
  "build_ascending_axon self0 = do {
     seg_length \<leftarrow> fiber_segment_length self0;
     aal \<leftarrow> ascending_axon_length self0;
     q \<leftarrow> truediv aal seg_length;
     let n = py_int q;
     let (aa, self) = new_Section None self0;
     let self = self\<lparr>ascending_axon := Some aa\<rparr>;
     let self = upd aa (set_labels [''ascending_axon'']) self;
     let self = upd aa (\<lambda>s. s\<lparr>nseg := Some n\<rparr>) self;
     aal \<leftarrow> ascending_axon_length self;
     let self = upd aa (\<lambda>s. s\<lparr>L := Some (real_of_int aal)\<rparr>) self;
     let self = upd aa (\<lambda>s. s\<lparr>diam := Some 0.3\<rparr>) self;
     previous_section \<leftarrow> axon_initial_segment self;
     a \<leftarrow> axon self;
     let self = self\<lparr>axon := Some (a @ [aa])\<rparr>;
     let self = upd aa (connect previous_section None) self;
     let y = 16.62232;
     aal \<leftarrow> ascending_axon_length self;
     let points =
       map (\<lambda>f. vadd (coords (position self)) (0, y + f * real_of_int aal, 0)) fraction;
     let self = upd aa (add_3d points) self;
     Some (self\<lparr>y_pf := Some (y + real_of_int (seg_length * n))\<rparr>)
   }"

text \<open>
  The body of the loop of \<^verbatim>\<open>build_parallel_fiber\<close>, with the locals that are bound
  before the loop as parameters. Its last statement \<^verbatim>\<open>z += section_length\<close> assigns a
  local that is computed afresh in the next iteration and is never read again, so it has
  no counterpart here.
\<close>

definition parallel_fiber_body :: "int \<Rightarrow> real \<Rightarrow> real \<Rightarrow> model \<Rightarrow> int \<times> ref \<Rightarrow> model option" where
  "parallel_fiber_body section_length y center self0 = (\<lambda>(id, section). do {
     let self = upd section (set_labels [''parallel_fiber'']) self0;
     let self = upd section (set_dimensions (real_of_int section_length) 0.3) self;
     let sign = 1 - (id mod 2) * 2;
     let z = \<lfloor>real_of_int id / 2\<rfloor> * section_length;
     let self = upd section
       (add_3d [vadd (coords (position self)) (0, y, center + real_of_int (sign * z)),
                vadd (coords (position self))
                  (0, y, center + real_of_int (sign * (z + section_length)))])
       self;
     if id < 2 then do {
       aa \<leftarrow> ascending_axon self;
       Some (upd section (connect aa None) self)
     } else do {
       pf \<leftarrow> parallel_fiber self;
       target \<leftarrow> index pf (id - 2);
       Some (upd section (connect target None) self)
     }
   })"

text \<open>The list comprehension that creates the sections of the parallel fiber.\<close>

fun new_Sections :: "string option list \<Rightarrow> model \<Rightarrow> ref list \<times> model" where
  "new_Sections [] self = ([], self)"
| "new_Sections (nm # nms) self =
     (case new_Section nm self of (r, self') \<Rightarrow>
        case new_Sections nms self' of (rs, self'') \<Rightarrow> (r # rs, self''))"

definition build_parallel_fiber :: "model \<Rightarrow> model option" where
  "build_parallel_fiber self0 = do {
     section_length \<leftarrow> fiber_section_length self0;
     pfl \<leftarrow> parallel_fiber_length self0;
     q \<leftarrow> truediv pfl section_length;
     let n = py_int q;
     let (rs, self) =
       new_Sections (map (\<lambda>x. Some (''parellel_fiber_'' @ str x)) (range_py n)) self0;
     let self = self\<lparr>parallel_fiber := Some rs\<rparr>;
     y \<leftarrow> y_pf self;
     let center = item2 (position self);
     pf \<leftarrow> parallel_fiber self;
     self \<leftarrow> for_loop (parallel_fiber_body section_length y center) self (enumerate_py pf);
     a \<leftarrow> axon self;
     pf \<leftarrow> parallel_fiber self;
     Some (self\<lparr>axon := Some (a @ pf)\<rparr>)
   }"

definition builder :: "model \<Rightarrow> model option" where
  "builder model0 = do {
     let model = model0\<lparr>fiber_section_length := Some 20\<rparr>;
     let model = model\<lparr>fiber_segment_length := Some 7\<rparr>;
     let model = model\<lparr>ascending_axon_length := Some 126\<rparr>;
     let model = model\<lparr>parallel_fiber_length := Some 2000\<rparr>;
     model \<leftarrow> build_soma model;
     model \<leftarrow> build_dendrites model;
     model \<leftarrow> build_hillock model;
     model \<leftarrow> build_ascending_axon model;
     build_parallel_fiber model
   }"

subsection \<open>The sections that the builder creates, in closed form\<close>

text \<open>
  The state of each section after the builder has run, with the references it holds as
  parameters. They are proved below to be what \<open>builder\<close> computes.
\<close>

definition soma_section :: "vec3 \<Rightarrow> section_obj" where
  "soma_section P = \<lparr>name = None, L = Some 5.62232, diam = Some 5.8, nseg = Some 1,
     pts3d = [P, vadd P (0, 5.62232, 0)], labels = [], parent = None\<rparr>"

definition dendrite_section :: "ref \<Rightarrow> ndarray \<Rightarrow> int \<Rightarrow> section_obj" where
  "dendrite_section s0 A i = \<lparr>name = None, L = Some 15, diam = Some 0.75, nseg = None,
     pts3d = map (\<lambda>p. (item0 p, item1 p, item2 p))
       (dendrite_points (setitem0 A (item0 A + (real_of_int i - 1.5) * 2)) 15),
     labels = [], parent = Some (s0, Some 0)\<rparr>"

definition hillock_section :: "ref \<Rightarrow> vec3 \<Rightarrow> section_obj" where
  "hillock_section s0 P = \<lparr>name = None, L = Some 1, diam = Some 1.5, nseg = Some 1,
     pts3d = [vadd P (0, 5.62232, 0), vadd P (0, 6.62232, 0)],
     labels = [''axon_hillock''], parent = Some (s0, Some 0)\<rparr>"

definition ais_section :: "ref \<Rightarrow> vec3 \<Rightarrow> section_obj" where
  "ais_section hillock P = \<lparr>name = Some ''axon_initial_segment'', L = Some 10,
     diam = Some 0.7, nseg = Some 1,
     pts3d = [vadd P (0, 6.62232, 0), vadd P (0, 16.62232, 0)],
     labels = [''axon_initial_segment''], parent = Some (hillock, Some 1)\<rparr>"

definition aa_section :: "ref \<Rightarrow> vec3 \<Rightarrow> section_obj" where
  "aa_section ais P = \<lparr>name = None, L = Some 126, diam = Some 0.3, nseg = Some 18,
     pts3d = map (\<lambda>f. vadd P (0, 16.62232 + f * 126, 0)) fraction,
     labels = [''ascending_axon''], parent = Some (ais, None)\<rparr>"

definition pf_section :: "ref \<Rightarrow> ref \<Rightarrow> vec3 \<Rightarrow> real \<Rightarrow> int \<Rightarrow> section_obj" where
  "pf_section aa B P y k = \<lparr>name = Some (''parellel_fiber_'' @ str k), L = Some 20, diam = Some 0.3,
     nseg = None,
     pts3d = [vadd P (0, y, vz P + real_of_int ((1 - (k mod 2) * 2) * (\<lfloor>real_of_int k / 2\<rfloor> * 20))),
              vadd P (0, y, vz P + real_of_int ((1 - (k mod 2) * 2) * (\<lfloor>real_of_int k / 2\<rfloor> * 20 + 20)))],
     labels = [''parallel_fiber''],
     parent = Some (if k < 2 then aa else B + nat (k - 2), None)\<rparr>"

text \<open>
  All 108 sections of one invocation, in creation order; \<open>b\<close> is the number of
  sections that existed before.
\<close>

definition built :: "nat \<Rightarrow> ndarray \<Rightarrow> section_obj list" where
  "built b A =
     soma_section (coords A) # map (dendrite_section b A) [0, 1, 2, 3] @
     [hillock_section b (coords A), ais_section (b + 5) (coords A), aa_section (b + 6) (coords A)] @
     map (\<lambda>j. pf_section (b + 7) (b + 8) (coords A) 142.62232 (int j)) [0..<100]"

subsection \<open>Walking up the tree\<close>

text \<open>
  The first \<open>n\<close> ancestors of a section (fewer when the root is reached before).
\<close>

fun parent_chain :: "model \<Rightarrow> nat \<Rightarrow> ref \<Rightarrow> ref list" where
  "parent_chain c 0 r = []"
| "parent_chain c (Suc n) r =
     (case parent (sec c r) of None \<Rightarrow> [] | Some pe \<Rightarrow> fst pe # parent_chain c n (fst pe))"

text \<open>
  The root above a section, when it is reached within \<open>n\<close> steps. On a cycle no
  amount of steps is enough and the result is \<open>None\<close>.
\<close>

fun root :: "model \<Rightarrow> nat \<Rightarrow> ref \<Rightarrow> ref option" where
  "root c 0 r = (case parent (sec c r) of None \<Rightarrow> Some r | Some pe \<Rightarrow> None)"
| "root c (Suc n) r = (case parent (sec c r) of None \<Rightarrow> Some r | Some pe \<Rightarrow> root c n (fst pe))"

subsection \<open>The structure of what one invocation creates\<close>



subsection \<open>The parameter tables\<close>

text \<open>
  An entry of a \<^verbatim>\<open>mechanisms\<close> list is a name or a pair of a name and
  a variant tag; a key of an \<^verbatim>\<open>attributes\<close> dict is a name or a pair
  of an attribute and a mechanism. The dicts are association lists in the order of the
  source. The values are numbers; \<^verbatim>\<open>100\<close> and
  \<^verbatim>\<open>137.5\<close> are both reals here, and
  \<^verbatim>\<open>1.203410852e-05\<close> is written out as a decimal.
\<close>

datatype mechanism = Mech string | MechVariant string string

datatype attr_key = Attr string | MechAttr string string

text \<open>
  The value of a section role: the key \<^verbatim>\<open>synapses\<close> is present for
  the dendrites only.
\<close>

record section_type =
  synapses :: "string list option"
  mechanisms :: "mechanism list"
  attributes :: "(attr_key \<times> real) list"

text \<open>
  The value of a synapse name; its \<^verbatim>\<open>attributes\<close> dict has plain
  names as keys.
\<close>

record synapse_type =
  point_process :: "string \<times> string"
  syn_attributes :: "(string \<times> real) list"

definition GranuleCell_synapse_types :: "(string \<times> synapse_type) list" where
  "GranuleCell_synapse_types =
    [(''AMPA'',
      \<lparr>point_process = (''AMPA'', ''granule''),
       syn_attributes = [(''tau_facil'', 5), (''tau_rec'', 8), (''tau_1'', 1),
                         (''gmax'', 1400), (''U'', 0.43)]\<rparr>),
     (''NMDA'',
      \<lparr>point_process = (''NMDA'', ''granule''),
       syn_attributes = [(''tau_facil'', 5), (''tau_rec'', 8), (''tau_1'', 1),
                         (''gmax'', 23500), (''U'', 0.43)]\<rparr>),
     (''GABA'',
      \<lparr>point_process = (''GABA'', ''granule''),
       syn_attributes = [(''U'', 0.35)]\<rparr>)]"

definition GranuleCell_section_types :: "(string \<times> section_type) list" where
  "GranuleCell_section_types =
    [(''soma'',
      \<lparr>synapses = None,
       mechanisms = [Mech ''Leak'', Mech ''Kv3_4'', Mech ''Kv4_3'',
                     Mech ''Kir2_3'', Mech ''Ca'', Mech ''Kv1_1'',
                     Mech ''Kv1_5'', Mech ''Kv2_2'',
                     MechVariant ''cdp5'' ''CR''],
       attributes = [(Attr ''Ra'', 100), (Attr ''cm'', 2),
                     (MechAttr ''e'' ''Leak'', - 60), (Attr ''ek'', - 88),
                     (Attr ''eca'', 137.5),
                     (MechAttr ''gmax'' ''Leak'', 0.00029038073716),
                     (MechAttr ''gkbar'' ''Kv3_4'', 0.00076192450951999995),
                     (MechAttr ''gkbar'' ''Kv4_3'', 0.0028149683906099998),
                     (MechAttr ''gkbar'' ''Kir2_3'', 0.00074725514701999996),
                     (MechAttr ''gcabar'' ''Ca'', 0.00060938071783999998),
                     (MechAttr ''gbar'' ''Kv1_1'', 0.0056973826455499997),
                     (MechAttr ''gKur'' ''Kv1_5'', 0.00083407556713999999),
                     (MechAttr ''gKv2_2bar'' ''Kv2_2'', 0.00001203410852)]\<rparr>),
     (''dendrites'',
      \<lparr>synapses = Some [''NMDA'', ''AMPA'', ''GABA''],
       mechanisms = [Mech ''Leak'', MechVariant ''Leak'' ''GABA'',
                     Mech ''Ca'', Mech ''Kca1_1'', Mech ''Kv1_1'',
                     MechVariant ''cdp5'' ''CR''],
       attributes = [(Attr ''Ra'', 100), (Attr ''cm'', 2.5),
                     (MechAttr ''e'' ''Leak'', - 60), (Attr ''ek'', - 88),
                     (Attr ''eca'', 137.5),
                     (MechAttr ''gmax'' ''Leak'', 0.00025029700736999997),
                     (MechAttr ''gcabar'' ''Ca'', 0.0050012800845900002),
                     (MechAttr ''gbar'' ''Kca1_1'', 0.010018074546510001),
                     (MechAttr ''gbar'' ''Kv1_1'', 0.00381819207934)]\<rparr>),
     (''axon'',
      \<lparr>synapses = None,
       mechanisms = [],
       attributes = []\<rparr>),
     (''ascending_axon'',
      \<lparr>synapses = None,
       mechanisms = [MechVariant ''Na'' ''granule_cell'', Mech ''Kv3_4'',
                     Mech ''Leak'', Mech ''Ca'', MechVariant ''cdp5'' ''CR''],
       attributes = [(Attr ''Ra'', 100), (Attr ''cm'', 1),
                     (Attr ''ena'', 87.39), (Attr ''ek'', - 88),
                     (MechAttr ''e'' ''Leak'', - 60), (Attr ''eca'', 137.5),
                     (MechAttr ''gnabar'' ''Na'', 0.026301636815019999),
                     (MechAttr ''gkbar'' ''Kv3_4'', 0.00237386061632),
                     (MechAttr ''gmax'' ''Leak'', 0.000093640921249999996),
                     (MechAttr ''gcabar'' ''Ca'', 0.00068197420273000001)]\<rparr>),
     (''parallel_fiber'',
      \<lparr>synapses = None,
       mechanisms = [MechVariant ''Na'' ''granule_cell'', Mech ''Kv3_4'',
                     Mech ''Leak'', Mech ''Ca'', MechVariant ''cdp5'' ''CR''],
       attributes = [(Attr ''L'', 20), (Attr ''diam'', 0.15),
                     (Attr ''Ra'', 100), (Attr ''cm'', 1),
                     (Attr ''ena'', 87.39), (Attr ''ek'', - 88),
                     (MechAttr ''e'' ''Leak'', - 60), (Attr ''eca'', 137.5),
                     (MechAttr ''gnabar'' ''Na'', 0.017718484492610001),
                     (MechAttr ''gkbar'' ''Kv3_4'', 0.0081756804703699993),
                     (MechAttr ''gmax'' ''Leak'', 0.00000035301616000000001),
                     (MechAttr ''gcabar'' ''Ca'', 0.00020856833529999999)]\<rparr>),
     (''axon_initial_segment'',
      \<lparr>synapses = None,
       mechanisms = [MechVariant ''Na'' ''granule_cell_FHF'', Mech ''Kv3_4'',
                     Mech ''Leak'', Mech ''Ca'', Mech ''Km'',
                     MechVariant ''cdp5'' ''CR''],
       attributes = [(Attr ''Ra'', 100), (Attr ''cm'', 1),
                     (Attr ''ena'', 87.39), (Attr ''ek'', - 88),
                     (Attr ''eca'', 137.5), (MechAttr ''e'' ''Leak'', - 60),
                     (MechAttr ''gnabar'' ''Na'', 1.28725006737226),
                     (MechAttr ''gkbar'' ''Kv3_4'', 0.0064959534065400001),
                     (MechAttr ''gmax'' ''Leak'', 0.00029276697557000002),
                     (MechAttr ''gcabar'' ''Ca'', 0.00031198539471999999),
                     (MechAttr ''gkbar'' ''Km'', 0.00056671971737000002)]\<rparr>),
     (''axon_hillock'',
      \<lparr>synapses = None,
       mechanisms = [Mech ''Leak'', MechVariant ''Na'' ''granule_cell_FHF'',
                     Mech ''Kv3_4'', Mech ''Ca'', MechVariant ''cdp5'' ''CR''],
       attributes = [(Attr ''Ra'', 100), (Attr ''cm'', 2),
                     (MechAttr ''e'' ''Leak'', - 60), (Attr ''ena'', 87.39),
                     (Attr ''ek'', - 88), (Attr ''eca'', 137.5),
                     (MechAttr ''gmax'' ''Leak'', 0.00036958189720000001),
                     (MechAttr ''gnabar'' ''Na'', 0.0092880585146199995),
                     (MechAttr ''gkbar'' ''Kv3_4'', 0.020373463109149999),
                     (MechAttr ''gcabar'' ''Ca'', 0.00057726155447)]\<rparr>)]"

definition GranuleCellMildAdapting_synapse_types :: "(string \<times> synapse_type) list" where
  "GranuleCellMildAdapting_synapse_types =
    [(''AMPA'',
      \<lparr>point_process = (''AMPA'', ''granule''),
       syn_attributes = [(''tau_facil'', 5), (''tau_rec'', 8), (''tau_1'', 1),
                         (''gmax'', 1400), (''U'', 0.43)]\<rparr>),
     (''NMDA'',
      \<lparr>point_process = (''NMDA'', ''granule''),
       syn_attributes = [(''tau_facil'', 5), (''tau_rec'', 8), (''tau_1'', 1),
                         (''gmax'', 23500), (''U'', 0.43)]\<rparr>),
     (''GABA'',
      \<lparr>point_process = (''GABA'', ''granule''),
       syn_attributes = [(''U'', 0.35)]\<rparr>)]"

definition GranuleCellMildAdapting_section_types :: "(string \<times> section_type) list" where
  "GranuleCellMildAdapting_section_types =
    [(''soma'',
      \<lparr>synapses = None,
       mechanisms = [Mech ''Leak'', Mech ''Kv3_4'', Mech ''Kv4_3'',
                     Mech ''Kir2_3'', Mech ''Ca'', Mech ''Kv1_1'',
                     Mech ''Kv1_5'', Mech ''Kv2_2'',
                     MechVariant ''cdp5'' ''CR''],
       attributes = [(Attr ''Ra'', 100), (Attr ''cm'', 2),
                     (MechAttr ''e'' ''Leak'', - 60), (Attr ''ek'', - 88),
                     (Attr ''eca'', 137.5),
                     (MechAttr ''gmax'' ''Leak'', 0.00020821612897999999),
                     (MechAttr ''gkbar'' ''Kv3_4'', 0.00053837153610999998),
                     (MechAttr ''gkbar'' ''Kv4_3'', 0.0032501728450999999),
                     (MechAttr ''gkbar'' ''Kir2_3'', 0.00080747403035999997),
                     (MechAttr ''gcabar'' ''Ca'', 0.00066384354030999998),
                     (MechAttr ''gbar'' ''Kv1_1'', 0.0046520692281700003),
                     (MechAttr ''gKur'' ''Kv1_5'', 0.00106988075956),
                     (MechAttr ''gKv2_2bar'' ''Kv2_2'', 0.000025949576899999998)]\<rparr>),
     (''dendrites'',
      \<lparr>synapses = Some [''NMDA'', ''AMPA'', ''GABA''],
       mechanisms = [Mech ''Leak'', MechVariant ''Leak'' ''GABA'',
                     Mech ''Ca'', Mech ''Kca1_1'', Mech ''Kv1_1'',
                     MechVariant ''cdp5'' ''CR''],
       attributes = [(Attr ''Ra'', 100), (Attr ''cm'', 2.5),
                     (MechAttr ''e'' ''Leak'', - 60), (Attr ''ek'', - 88),
                     (Attr ''eca'', 137.5),
                     (MechAttr ''gmax'' ''Leak'', 0.00020424219215),
                     (MechAttr ''gcabar'' ''Ca'', 0.01841833779253),
                     (MechAttr ''gbar'' ''Kca1_1'', 0.02998872868395),
                     (MechAttr ''gbar'' ''Kv1_1'', 0.00010675447184)]\<rparr>),
     (''axon'',
      \<lparr>synapses = None,
       mechanisms = [],
       attributes = []\<rparr>),
     (''ascending_axon'',
      \<lparr>synapses = None,
       mechanisms = [MechVariant ''Na'' ''granule_cell'', Mech ''Kv3_4'',
                     Mech ''Leak'', Mech ''Ca'', MechVariant ''cdp5'' ''CR''],
       attributes = [(Attr ''Ra'', 100), (Attr ''cm'', 1),
                     (Attr ''ena'', 87.39), (Attr ''ek'', - 88),
                     (MechAttr ''e'' ''Leak'', - 60), (Attr ''eca'', 137.5),
                     (MechAttr ''gnabar'' ''Na'', 0.029973709719629999),
                     (MechAttr ''gkbar'' ''Kv3_4'', 0.0046029972380800003),
                     (MechAttr ''gmax'' ''Leak'', 0.000078963697590000003),
                     (MechAttr ''gcabar'' ''Ca'', 0.00059214434259999998)]\<rparr>),
     (''parallel_fiber'',
      \<lparr>synapses = None,
       mechanisms = [MechVariant ''Na'' ''granule_cell'', Mech ''Kv3_4'',
                     Mech ''Leak'', Mech ''Ca'', MechVariant ''cdp5'' ''CR''],
       attributes = [(Attr ''L'', 20), (Attr ''diam'', 0.15),
                     (Attr ''Ra'', 100), (Attr ''cm'', 1),
                     (Attr ''ena'', 87.39), (Attr ''ek'', - 88),
                     (MechAttr ''e'' ''Leak'', - 60), (Attr ''eca'', 137.5),
                     (MechAttr ''gnabar'' ''Na'', 0.01896618618573),
                     (MechAttr ''gkbar'' ''Kv3_4'', 0.0094015060525799998),
                     (MechAttr ''gmax'' ''Leak'', 0.00000041272473000000001),
                     (MechAttr ''gcabar'' ''Ca'', 0.00064742320254000001)]\<rparr>),
     (''axon_initial_segment'',
      \<lparr>synapses = None,
       mechanisms = [MechVariant ''Na'' ''granule_cell_FHF'', Mech ''Kv3_4'',
                     Mech ''Leak'', Mech ''Ca'', Mech ''Km'',
                     MechVariant ''cdp5'' ''CR''],
       attributes = [(Attr ''Ra'', 100), (Attr ''cm'', 1),
                     (Attr ''ena'', 87.39), (Attr ''ek'', - 88),
                     (Attr ''eca'', 137.5), (MechAttr ''e'' ''Leak'', - 60),
                     (MechAttr ''gnabar'' ''Na'', 1.06883116205825),
                     (MechAttr ''gkbar'' ''Kv3_4'', 0.034592458064240002),
                     (MechAttr ''gmax'' ''Leak'', 0.00025011065810000001),
                     (MechAttr ''gcabar'' ''Ca'', 0.00011630629281),
                     (MechAttr ''gkbar'' ''Km'', 0.00044764153078999998)]\<rparr>),
     (''axon_hillock'',
      \<lparr>synapses = None,
       mechanisms = [Mech ''Leak'', MechVariant ''Na'' ''granule_cell_FHF'',
                     Mech ''Kv3_4'', Mech ''Ca'', MechVariant ''cdp5'' ''CR''],
       attributes = [(Attr ''Ra'', 100), (Attr ''cm'', 2),
                     (MechAttr ''e'' ''Leak'', - 60), (Attr ''ena'', 87.39),
                     (Attr ''ek'', - 88), (Attr ''eca'', 137.5),
                     (MechAttr ''gmax'' ''Leak'', 0.00025295417368000002),
                     (MechAttr ''gnabar'' ''Na'', 0.011082499796400001),
                     (MechAttr ''gkbar'' ''Kv3_4'', 0.050732563882920002),
                     (MechAttr ''gcabar'' ''Ca'', 0.00028797253573000002)]\<rparr>)]"

definition GranuleCellAdapting_synapse_types :: "(string \<times> synapse_type) list" where
  "GranuleCellAdapting_synapse_types =
    [(''AMPA'',
      \<lparr>point_process = (''AMPA'', ''granule''),
       syn_attributes = [(''tau_facil'', 5), (''tau_rec'', 8), (''tau_1'', 1),
                         (''gmax'', 1400), (''U'', 0.43)]\<rparr>),
     (''NMDA'',
      \<lparr>point_process = (''NMDA'', ''granule''),
       syn_attributes = [(''tau_facil'', 5), (''tau_rec'', 8), (''tau_1'', 1),
                         (''gmax'', 23500), (''U'', 0.43)]\<rparr>),
     (''GABA'',
      \<lparr>point_process = (''GABA'', ''granule''),
       syn_attributes = [(''U'', 0.35)]\<rparr>)]"

definition GranuleCellAdapting_section_types :: "(string \<times> section_type) list" where
  "GranuleCellAdapting_section_types =
    [(''soma'',
      \<lparr>synapses = None,
       mechanisms = [Mech ''Leak'', Mech ''Kv3_4'', Mech ''Kv4_3'',
                     Mech ''Kir2_3'', Mech ''Ca'', Mech ''Kv1_1'',
                     Mech ''Kv1_5'', Mech ''Kv2_2'',
                     MechVariant ''cdp5'' ''CR''],
       attributes = [(Attr ''Ra'', 100), (Attr ''cm'', 2),
                     (MechAttr ''e'' ''Leak'', - 60), (Attr ''ek'', - 88),
                     (Attr ''eca'', 137.5),
                     (MechAttr ''gmax'' ''Leak'', 0.00027672909671000001),
                     (MechAttr ''gkbar'' ''Kv3_4'', 0.00373151328841),
                     (MechAttr ''gkbar'' ''Kv4_3'', 0.0027313162972600002),
                     (MechAttr ''gkbar'' ''Kir2_3'', 0.00094360184424999995),
                     (MechAttr ''gcabar'' ''Ca'', 0.00029165028328999998),
                     (MechAttr ''gbar'' ''Kv1_1'', 0.0031675812802999998),
                     (MechAttr ''gKur'' ''Kv1_5'', 0.00107176612352),
                     (MechAttr ''gKv2_2bar'' ''Kv2_2'', 0.00006710092624)]\<rparr>),
     (''dendrites'',
      \<lparr>synapses = Some [''NMDA'', ''AMPA'', ''GABA''],
       mechanisms = [Mech ''Leak'', MechVariant ''Leak'' ''GABA'',
                     Mech ''Ca'', Mech ''Kca1_1'', Mech ''Kv1_1'',
                     MechVariant ''cdp5'' ''CR''],
       attributes = [(Attr ''Ra'', 100), (Attr ''cm'', 2.5),
                     (MechAttr ''e'' ''Leak'', - 60), (Attr ''ek'', - 88),
                     (Attr ''eca'', 137.5),
                     (MechAttr ''gmax'' ''Leak'', 0.00029871180381000001),
                     (MechAttr ''gcabar'' ''Ca'', 0.024687091736070001),
                     (MechAttr ''gbar'' ''Kca1_1'', 0.01185742892862),
                     (MechAttr ''gbar'' ''Kv1_1'', 0.00015853886699000001)]\<rparr>),
     (''axon'',
      \<lparr>synapses = None,
       mechanisms = [],
       attributes = []\<rparr>),
     (''ascending_axon'',
      \<lparr>synapses = None,
       mechanisms = [MechVariant ''Na'' ''granule_cell'', Mech ''Kv3_4'',
                     Mech ''Leak'', Mech ''Ca'', MechVariant ''cdp5'' ''CR''],
       attributes = [(Attr ''Ra'', 100), (Attr ''cm'', 1),
                     (Attr ''ena'', 87.39), (Attr ''ek'', - 88),
                     (MechAttr ''e'' ''Leak'', - 60), (Attr ''eca'', 137.5),
                     (MechAttr ''gnabar'' ''Na'', 0.025441894508310001),
                     (MechAttr ''gkbar'' ''Kv3_4'', 0.0046504514953399998),
                     (MechAttr ''gmax'' ''Leak'', 0.000053037170669999997),
                     (MechAttr ''gcabar'' ''Ca'', 0.00031374692347000001)]\<rparr>),
     (''parallel_fiber'',
      \<lparr>synapses = None,
       mechanisms = [MechVariant ''Na'' ''granule_cell'', Mech ''Kv3_4'',
                     Mech ''Leak'', Mech ''Ca'', MechVariant ''cdp5'' ''CR''],
       attributes = [(Attr ''L'', 20), (Attr ''diam'', 0.15),
                     (Attr ''Ra'', 100), (Attr ''cm'', 1),
                     (Attr ''ena'', 87.39), (Attr ''ek'', - 88),
                     (MechAttr ''e'' ''Leak'', - 60), (Attr ''eca'', 137.5),
                     (MechAttr ''gnabar'' ''Na'', 0.0142518259615),
                     (MechAttr ''gkbar'' ''Kv3_4'', 0.0098649550733799999),
                     (MechAttr ''gmax'' ''Leak'', 0.00000014118927999999999),
                     (MechAttr ''gcabar'' ''Ca'', 0.00024821458382999999)]\<rparr>),
     (''axon_initial_segment'',
      \<lparr>synapses = None,
       mechanisms = [MechVariant ''Na'' ''granule_cell_FHF'', Mech ''Kv3_4'',
                     Mech ''Leak'', Mech ''Ca'', Mech ''Km'',
                     MechVariant ''cdp5'' ''CR''],
       attributes = [(Attr ''Ra'', 100), (Attr ''cm'', 1),
                     (Attr ''ena'', 87.39), (Attr ''ek'', - 88),
                     (Attr ''eca'', 137.5), (MechAttr ''e'' ''Leak'', - 60),
                     (MechAttr ''gnabar'' ''Na'', 1.5810107836409499),
                     (MechAttr ''gkbar'' ''Kv3_4'', 0.039582385081389997),
                     (MechAttr ''gmax'' ''Leak'', 0.00025512657995000002),
                     (MechAttr ''gcabar'' ''Ca'', 0.00038160760886000002),
                     (MechAttr ''gkbar'' ''Km'', 0.00049717923887)]\<rparr>),
     (''axon_hillock'',
      \<lparr>synapses = None,
       mechanisms = [Mech ''Leak'', MechVariant ''Na'' ''granule_cell_FHF'',
                     Mech ''Kv3_4'', Mech ''Ca'', MechVariant ''cdp5'' ''CR''],
       attributes = [(Attr ''Ra'', 100), (Attr ''cm'', 2),
                     (MechAttr ''e'' ''Leak'', - 60), (Attr ''ena'', 87.39),
                     (Attr ''ek'', - 88), (Attr ''eca'', 137.5),
                     (MechAttr ''gmax'' ''Leak'', 0.00031475453130000002),
                     (MechAttr ''gnabar'' ''Na'', 0.020910983616370001),
                     (MechAttr ''gkbar'' ''Kv3_4'', 0.03097630887484),
                     (MechAttr ''gcabar'' ''Ca'', 0.00019803691988000001)]\<rparr>)]"

definition GranuleCellAccelerate_synapse_types :: "(string \<times> synapse_type) list" where
  "GranuleCellAccelerate_synapse_types =
    [(''AMPA'',
      \<lparr>point_process = (''AMPA'', ''granule''),
       syn_attributes = [(''tau_facil'', 5), (''tau_rec'', 8), (''tau_1'', 1),
                         (''gmax'', 1400), (''U'', 0.43)]\<rparr>),
     (''NMDA'',
      \<lparr>point_process = (''NMDA'', ''granule''),
       syn_attributes = [(''tau_facil'', 5), (''tau_rec'', 8), (''tau_1'', 1),
                         (''gmax'', 23500), (''U'', 0.43)]\<rparr>),
     (''GABA'',
      \<lparr>point_process = (''GABA'', ''granule''),
       syn_attributes = [(''U'', 0.35)]\<rparr>)]"

definition GranuleCellAccelerate_section_types :: "(string \<times> section_type) list" where
  "GranuleCellAccelerate_section_types =
    [(''soma'',
      \<lparr>synapses = None,
       mechanisms = [Mech ''Leak'', Mech ''Kv3_4'', Mech ''Kv4_3'',
                     Mech ''Kir2_3'', Mech ''Ca'', Mech ''Kv1_1'',
                     Mech ''Kv1_5'', Mech ''Kv2_2'',
                     MechVariant ''cdp5'' ''CAM''],
       attributes = [(Attr ''Ra'', 100), (Attr ''cm'', 2),
                     (MechAttr ''e'' ''Leak'', - 60), (Attr ''ek'', - 88),
                     (Attr ''eca'', 137.5),
                     (MechAttr ''gmax'' ''Leak'', 0.00029038073716),
                     (MechAttr ''gkbar'' ''Kv3_4'', 0.00076192450951999995),
                     (MechAttr ''gkbar'' ''Kv4_3'', 0.0028149683906099998),
                     (MechAttr ''gkbar'' ''Kir2_3'', 0.00074725514701999996),
                     (MechAttr ''gcabar'' ''Ca'', 0.00060938071783999998),
                     (MechAttr ''gbar'' ''Kv1_1'', 0.0056973826455499997),
                     (MechAttr ''gKur'' ''Kv1_5'', 0.00083407556713999999),
                     (MechAttr ''gKv2_2bar'' ''Kv2_2'', 0.00001203410852)]\<rparr>),
     (''dendrites'',
      \<lparr>synapses = Some [''NMDA'', ''AMPA'', ''GABA''],
       mechanisms = [Mech ''Leak'', MechVariant ''Leak'' ''GABA'',
                     Mech ''Ca'', Mech ''Kca1_1'', Mech ''Kv1_1'',
                     MechVariant ''cdp5'' ''CAM''],
       attributes = [(Attr ''Ra'', 100), (Attr ''cm'', 2.5),
                     (MechAttr ''e'' ''Leak'', - 60), (Attr ''ek'', - 88),
                     (Attr ''eca'', 137.5),
                     (MechAttr ''gmax'' ''Leak'', 0.00025029700736999997),
                     (MechAttr ''gcabar'' ''Ca'', 0.0050012800845900002),
                     (MechAttr ''gbar'' ''Kca1_1'', 0.010018074546510001),
                     (MechAttr ''gbar'' ''Kv1_1'', 0.00381819207934)]\<rparr>),
     (''axon'',
      \<lparr>synapses = None,
       mechanisms = [],
       attributes = []\<rparr>),
     (''ascending_axon'',
      \<lparr>synapses = None,
       mechanisms = [MechVariant ''Na'' ''granule_cell'', Mech ''Kv3_4'',
                     Mech ''Leak'', Mech ''Ca'', MechVariant ''cdp5'' ''CAM''],
       attributes = [(Attr ''Ra'', 100), (Attr ''cm'', 1),
                     (Attr ''ena'', 87.39), (Attr ''ek'', - 88),
                     (MechAttr ''e'' ''Leak'', - 60), (Attr ''eca'', 137.5),
                     (MechAttr ''gnabar'' ''Na'', 0.026301636815019999),
                     (MechAttr ''gkbar'' ''Kv3_4'', 0.00237386061632),
                     (MechAttr ''gmax'' ''Leak'', 0.000093640921249999996),
                     (MechAttr ''gcabar'' ''Ca'', 0.00068197420273000001)]\<rparr>),
     (''parallel_fiber'',
      \<lparr>synapses = None,
       mechanisms = [MechVariant ''Na'' ''granule_cell'', Mech ''Kv3_4'',
                     Mech ''Leak'', Mech ''Ca'', MechVariant ''cdp5'' ''CAM''],
       attributes = [(Attr ''L'', 20), (Attr ''diam'', 0.15),
                     (Attr ''Ra'', 100), (Attr ''cm'', 1),
                     (Attr ''ena'', 87.39), (Attr ''ek'', - 88),
                     (MechAttr ''e'' ''Leak'', - 60), (Attr ''eca'', 137.5),
                     (MechAttr ''gnabar'' ''Na'', 0.017718484492610001),
                     (MechAttr ''gkbar'' ''Kv3_4'', 0.0081756804703699993),
                     (MechAttr ''gmax'' ''Leak'', 0.00000035301616000000001),
                     (MechAttr ''gcabar'' ''Ca'', 0.00020856833529999999)]\<rparr>),
     (''axon_initial_segment'',
      \<lparr>synapses = None,
       mechanisms = [MechVariant ''Na'' ''granule_cell_FHF'', Mech ''Kv3_4'',
                     Mech ''Leak'', Mech ''Ca'', Mech ''Km'',
                     MechVariant ''cdp5'' ''CAM''],
       attributes = [(Attr ''Ra'', 100), (Attr ''cm'', 1),
                     (Attr ''ena'', 87.39), (Attr ''ek'', - 88),
                     (Attr ''eca'', 137.5), (MechAttr ''e'' ''Leak'', - 60),
                     (MechAttr ''gnabar'' ''Na'', 1.28725006737226),
                     (MechAttr ''gkbar'' ''Kv3_4'', 0.0064959534065400001),
                     (MechAttr ''gmax'' ''Leak'', 0.00029276697557000002),
                     (MechAttr ''gcabar'' ''Ca'', 0.00031198539471999999),
                     (MechAttr ''gkbar'' ''Km'', 0.00056671971737000002)]\<rparr>),
     (''axon_hillock'',
      \<lparr>synapses = None,
       mechanisms = [Mech ''Leak'', MechVariant ''Na'' ''granule_cell_FHF'',
                     Mech ''Kv3_4'', Mech ''Ca'',
                     MechVariant ''cdp5'' ''CAM''],
       attributes = [(Attr ''Ra'', 100), (Attr ''cm'', 2),
                     (MechAttr ''e'' ''Leak'', - 60), (Attr ''ena'', 87.39),
                     (Attr ''ek'', - 88), (Attr ''eca'', 137.5),
                     (MechAttr ''gmax'' ''Leak'', 0.00036958189720000001),
                     (MechAttr ''gnabar'' ''Na'', 0.0092880585146199995),
                     (MechAttr ''gkbar'' ''Kv3_4'', 0.020373463109149999),
                     (MechAttr ''gcabar'' ''Ca'', 0.00057726155447)]\<rparr>)]"

subsection \<open>Comparing the tables\<close>

text \<open>
  The conductance attributes: the maximal conductances \<^verbatim>\<open>g...\<close> of a
  mechanism.
\<close>

fun is_conductance :: "attr_key \<Rightarrow> bool" where
  "is_conductance (MechAttr a m) =
     (a \<in> set [''gmax'', ''gkbar'', ''gcabar'', ''gbar'', ''gKur'', ''gKv2_2bar'', ''gnabar''])"
| "is_conductance (Attr a) = False"

text \<open>
  A table without what the model classes may differ in: the variant tag of
  \<^verbatim>\<open>cdp5\<close> is blanked and every conductance value is set to 0. Roles,
  their order, the synapse lists, the mechanism lists, the attribute keys and all other
  values stay.
\<close>

fun blank_variant :: "mechanism \<Rightarrow> mechanism" where
  "blank_variant (MechVariant n v) = (if n = ''cdp5'' then MechVariant n [] else MechVariant n v)"
| "blank_variant (Mech n) = Mech n"

definition blank_conductance :: "attr_key \<times> real \<Rightarrow> attr_key \<times> real" where
  "blank_conductance kv = (fst kv, if is_conductance (fst kv) then 0 else snd kv)"

definition skeleton :: "(string \<times> section_type) list \<Rightarrow> (string \<times> section_type) list" where
  "skeleton tbl =
     map (\<lambda>rt. (fst rt, (snd rt)\<lparr>mechanisms := map blank_variant (mechanisms (snd rt)),
        attributes := map blank_conductance (attributes (snd rt))\<rparr>)) tbl"

text \<open>The variant tags of \<^verbatim>\<open>cdp5\<close> in a table, in order.\<close>

fun cdp5_variant :: "mechanism \<Rightarrow> string list" where
  "cdp5_variant (MechVariant n v) = (if n = ''cdp5'' then [v] else [])"
| "cdp5_variant (Mech n) = []"

definition cdp5_variants :: "(string \<times> section_type) list \<Rightarrow> string list" where
  "cdp5_variants tbl = concat (map (\<lambda>rt. concat (map cdp5_variant (mechanisms (snd rt)))) tbl)"

subsection \<open>Symbolic execution of the build steps\<close>

lemmas section_ops = Section_def set_dimensions_def set_segments_def add_3d_def connect_def set_labels_def

lemma index_0 [simp]: "index (x # xs) 0 = Some x"
  by (simp add: index_def)

lemma build_soma_eq:
  "build_soma self =
     Some (self\<lparr>heap := heap self @ [soma_section (coords (position self))],
       soma := Some [length (heap self)]\<rparr>)"
  by (simp add: build_soma_def new_Section_def soma0_def upd_def section_ops soma_section_def)

lemma dendrite_body_eq:
  "soma self = Some (s0 # ss) \<Longrightarrow> dend self = Some d \<Longrightarrow>
   dendrite_body self i =
     Some (self\<lparr>heap := heap self @ [dendrite_section s0 (position self) i],
      dend := Some (d @ [length (heap self)])\<rparr>)"
  by (simp add: dendrite_body_def new_Section_def soma0_def upd_def sec_def section_ops
      dendrite_section_def Let_def)

lemma range_py_4: "range_py 4 = [0, 1, 2, 3]"
  by (simp add: range_py_def upt_rec)

lemma build_dendrites_eq:
  "soma self = Some (s0 # ss) \<Longrightarrow> length (heap self) = n \<Longrightarrow>
   build_dendrites self =
     Some (self\<lparr>heap := heap self @ map (dendrite_section s0 (position self)) [0, 1, 2, 3],
      dend := Some [n, n + 1, n + 2, n + 3]\<rparr>)"
  by (auto simp add: build_dendrites_def range_py_4 dendrite_body_eq)

lemma build_hillock_eq:
  "soma self = Some (s0 # ss) \<Longrightarrow> length (heap self) = n \<Longrightarrow>
   build_hillock self =
     Some (self\<lparr>heap := heap self @
        [hillock_section s0 (coords (position self)), ais_section n (coords (position self))],
      axon := Some [n, n + 1],
      axon_hillock := Some n, axon_initial_segment := Some (n + 1)\<rparr>)"
  by (auto simp add: build_hillock_def new_Section_def soma0_def upd_def section_ops
      hillock_section_def ais_section_def nth_append)

lemma build_ascending_axon_eq:
  "fiber_segment_length self = Some 7 \<Longrightarrow> ascending_axon_length self = Some 126 \<Longrightarrow>
   axon_initial_segment self = Some ais \<Longrightarrow> axon self = Some a \<Longrightarrow>
   length (heap self) = n \<Longrightarrow>
   build_ascending_axon self = Some (self\<lparr>heap := heap self @ [aa_section ais (coords (position self))],
      axon := Some (a @ [n]), ascending_axon := Some n,
      y_pf := Some 142.62232\<rparr>)"
  by (auto simp add: build_ascending_axon_def truediv_def py_int_def new_Section_def upd_def section_ops
      aa_section_def)

text \<open>
  The loop of the parallel fiber: after \<open>k\<close> iterations the first
  \<open>k\<close> sections of the fiber are finished and the others are as they were
  created.
\<close>

lemma for_loop_append:
  "for_loop body s (xs @ ys) =
     (case for_loop body s xs of None \<Rightarrow> None | Some s' \<Rightarrow> for_loop body s' ys)"
  by (induction xs arbitrary: s) (auto split: option.splits)

lemma new_Sections_eq:
  "new_Sections nms self =
     ([length (heap self)..<length (heap self) + length nms], self\<lparr>heap := heap self @ map Section nms\<rparr>)"
proof (induction nms arbitrary: self)
  case Nil
  then show ?case by simp
next
  case (Cons nm nms)
  have "[b..<b + Suc n] = b # [Suc b..<Suc b + n]" for b n :: nat
    by (simp add: upt_conv_Cons)
  then show ?case
    by (simp add: Cons.IH new_Section_def)
qed

lemma enumerate_py_upt:
  "enumerate_py [B..<B + n] = map (\<lambda>k. (int k, B + k)) [0..<n]"
  by (rule nth_equalityI) (simp_all add: enumerate_py_def)

lemma index_upt:
  "2 \<le> k \<Longrightarrow> k < n \<Longrightarrow> index [B..<B + n] (int k - 2) = Some (B + nat (int k - 2))"
  by (simp add: index_def)

lemma parallel_fiber_body_eq:
  assumes "heap self = H @ xs @ Section (Some (''parellel_fiber_'' @ str (int k))) # ys"
    and "length xs = k" and "k < n"
    and "parallel_fiber self = Some [length H..<length H + n]"
    and "ascending_axon self = Some aa"
  shows "parallel_fiber_body 20 y (item2 (position self)) self (int k, length H + k) =
     Some (self\<lparr>heap := H @ xs @ pf_section aa (length H) (coords (position self)) y (int k) # ys\<rparr>)"
proof (cases "k < 2")
  case True
  with assms show ?thesis
    by (simp add: parallel_fiber_body_def upd_def list_update_append nth_append section_ops
        pf_section_def item2_def)
next
  case False
  with assms index_upt [of k n "length H"] show ?thesis
    by (simp add: parallel_fiber_body_def upd_def list_update_append nth_append section_ops
        pf_section_def item2_def)
qed

lemma parallel_fiber_loop:
  assumes "k \<le> n"
    and "heap self = H @ map (\<lambda>j. Section (Some (''parellel_fiber_'' @ str (int j)))) [0..<n]"
    and "parallel_fiber self = Some [length H..<length H + n]"
    and "ascending_axon self = Some aa"
  shows "for_loop (parallel_fiber_body 20 y (item2 (position self))) self
       (map (\<lambda>j. (int j, length H + j)) [0..<k]) =
     Some (self\<lparr>heap := H @ map (\<lambda>j. pf_section aa (length H) (coords (position self)) y (int j)) [0..<k]
        @ map (\<lambda>j. Section (Some (''parellel_fiber_'' @ str (int j)))) [k..<n]\<rparr>)"
  using assms(1)
proof (induction k)
  case 0
  with assms show ?case by simp
next
  case (Suc k)
  let ?mid = "self\<lparr>heap := H @ map (\<lambda>j. pf_section aa (length H) (coords (position self)) y (int j)) [0..<k]
        @ map (\<lambda>j. Section (Some (''parellel_fiber_'' @ str (int j)))) [k..<n]\<rparr>"
  from Suc.prems have kn: "k < n" by simp
  then have split: "[k..<n] = k # [Suc k..<n]"
    by (simp add: upt_conv_Cons)
  have body: "parallel_fiber_body 20 y (item2 (position ?mid)) ?mid (int k, length H + k) =
     Some (?mid\<lparr>heap := H @ map (\<lambda>j. pf_section aa (length H) (coords (position self)) y (int j)) [0..<k]
        @ pf_section aa (length H) (coords (position ?mid)) y (int k)
        # map (\<lambda>j. Section (Some (''parellel_fiber_'' @ str (int j)))) [Suc k..<n]\<rparr>)"
    by (rule parallel_fiber_body_eq [where n = n]) (use assms kn split in simp_all)
  from Suc.IH kn body show ?case
    by (simp add: for_loop_append)
qed

lemma build_parallel_fiber_eq:
  assumes "fiber_section_length self = Some 20" and "parallel_fiber_length self = Some 2000"
    and "y_pf self = Some y" and "ascending_axon self = Some aa" and "axon self = Some a"
    and "length (heap self) = n"
  shows "build_parallel_fiber self =
     Some (self\<lparr>heap := heap self @
          map (\<lambda>j. pf_section aa n (coords (position self)) y (int j)) [0..<100],
        axon := Some (a @ [n..<n + 100]),
        parallel_fiber := Some [n..<n + 100]\<rparr>)"
proof -
  let ?s1 = "self\<lparr>heap := heap self @ map (\<lambda>j. Section (Some (''parellel_fiber_'' @ str (int j)))) [0..<100],
       parallel_fiber := Some [length (heap self)..<length (heap self) + 100]\<rparr>"
  have loop: "for_loop (parallel_fiber_body 20 y (item2 (position ?s1))) ?s1
       (map (\<lambda>j. (int j, length (heap self) + j)) [0..<100]) =
     Some (?s1\<lparr>heap := heap self @ map (\<lambda>j. pf_section aa (length (heap self)) (coords (position ?s1)) y (int j)) [0..<100]
        @ map (\<lambda>j. Section (Some (''parellel_fiber_'' @ str (int j)))) [100..<100]\<rparr>)"
    by (rule parallel_fiber_loop) (use assms in simp_all)
  from assms loop show ?thesis
    by (auto simp add: build_parallel_fiber_def truediv_def py_int_def new_Sections_eq range_py_def
        enumerate_py_upt comp_def)
qed

text \<open>
  The builder never raises, and its result is known in closed form for every model object.
\<close>

lemma builder_eq:
  "builder self = Some (self\<lparr>heap := heap self @ built (length (heap self)) (position self),
     fiber_section_length := Some 20, fiber_segment_length := Some 7,
     ascending_axon_length := Some 126, parallel_fiber_length := Some 2000,
     soma := Some [length (heap self)],
     dend := Some [length (heap self) + 1, length (heap self) + 2, length (heap self) + 3,
       length (heap self) + 4],
     axon := Some ([length (heap self) + 5, length (heap self) + 6, length (heap self) + 7] @
       [length (heap self) + 8..<length (heap self) + 108]),
     axon_hillock := Some (length (heap self) + 5),
     axon_initial_segment := Some (length (heap self) + 6),
     ascending_axon := Some (length (heap self) + 7),
     y_pf := Some 142.62232,
     parallel_fiber := Some [length (heap self) + 8..<length (heap self) + 108]\<rparr>)"
proof -
  define b where "b = length (heap self)"
  define A where "A = position self"
  define P where "P = coords A"
  define m0 where "m0 = self\<lparr>fiber_section_length := Some 20, fiber_segment_length := Some 7,
     ascending_axon_length := Some 126, parallel_fiber_length := Some 2000\<rparr>"
  define m1 where "m1 = m0\<lparr>heap := heap self @ [soma_section P], soma := Some [b]\<rparr>"
  define m2 where "m2 = m1\<lparr>heap := heap m1 @ map (dendrite_section b A) [0, 1, 2, 3],
     dend := Some [b + 1, b + 2, b + 3, b + 4]\<rparr>"
  define m3 where "m3 = m2\<lparr>heap := heap m2 @ [hillock_section b P, ais_section (b + 5) P],
     axon := Some [b + 5, b + 6], axon_hillock := Some (b + 5),
     axon_initial_segment := Some (b + 6)\<rparr>"
  define m4 where "m4 = m3\<lparr>heap := heap m3 @ [aa_section (b + 6) P],
     axon := Some [b + 5, b + 6, b + 7], ascending_axon := Some (b + 7),
     y_pf := Some 142.62232\<rparr>"
  define m5 where "m5 = m4\<lparr>heap := heap m4 @
       map (\<lambda>j. pf_section (b + 7) (b + 8) P 142.62232 (int j)) [0..<100],
     axon := Some ([b + 5, b + 6, b + 7] @ [b + 8..<b + 108]),
     parallel_fiber := Some [b + 8..<b + 108]\<rparr>"
  have lb: "length (heap self) = b"
    by (simp add: b_def)
  have s1: "build_soma m0 = Some m1"
    by (simp add: build_soma_eq m1_def m0_def lb P_def A_def)
  have s2: "build_dendrites m1 = Some m2"
    using build_dendrites_eq [of m1 b "[]" "b + 1"]
    by (simp add: m2_def m1_def m0_def lb P_def A_def)
  have s3: "build_hillock m2 = Some m3"
    using build_hillock_eq [of m2 b "[]" "b + 5"]
    by (simp add: m3_def m2_def m1_def m0_def lb P_def A_def)
  have s4: "build_ascending_axon m3 = Some m4"
    using build_ascending_axon_eq [of m3 "b + 6" "[b + 5, b + 6]" "b + 7"]
    by (simp add: m4_def m3_def m2_def m1_def m0_def lb P_def A_def)
  have e: "b + 8 + 100 = b + 108"
    by simp
  have s5: "build_parallel_fiber m4 = Some m5"
    using build_parallel_fiber_eq [of m4 "142.62232" "b + 7" "[b + 5, b + 6, b + 7]" "b + 8"]
    unfolding e
    by (simp add: m5_def m4_def m3_def m2_def m1_def m0_def lb P_def A_def)
  have "builder self = Some m5"
    using s1 s2 s3 s4 s5 by (simp add: builder_def m0_def)
  also have "m5 = self\<lparr>heap := heap self @ built b A,
     fiber_section_length := Some 20, fiber_segment_length := Some 7,
     ascending_axon_length := Some 126, parallel_fiber_length := Some 2000,
     soma := Some [b], dend := Some [b + 1, b + 2, b + 3, b + 4],
     axon := Some ([b + 5, b + 6, b + 7] @ [b + 8..<b + 108]),
     axon_hillock := Some (b + 5), axon_initial_segment := Some (b + 6),
     ascending_axon := Some (b + 7), y_pf := Some 142.62232,
     parallel_fiber := Some [b + 8..<b + 108]\<rparr>"
    by (simp add: m5_def m4_def m3_def m2_def m1_def m0_def built_def P_def)
  finally show ?thesis
    by (simp only: b_def A_def)
qed

subsection \<open>Reading the sections of the result\<close>

lemma length_built: "length (built b A) = 108"
  by (simp add: built_def)

lemma built_soma: "built b A ! 0 = soma_section (coords A)"
  by (simp add: built_def)

lemma built_dendrite: "i < 4 \<Longrightarrow> built b A ! Suc i = dendrite_section b A (int i)"
proof -
  assume "i < 4"
  then have "i = 0 \<or> i = 1 \<or> i = 2 \<or> i = 3" by arith
  then show ?thesis
    by (auto simp add: built_def)
qed

lemma built_hillock: "built b A ! 5 = hillock_section b (coords A)"
  by (simp add: built_def)

lemma built_ais: "built b A ! 6 = ais_section (b + 5) (coords A)"
  by (simp add: built_def)

lemma built_aa: "built b A ! 7 = aa_section (b + 6) (coords A)"
  by (simp add: built_def)

lemma built_pf: "k < 100 \<Longrightarrow> built b A ! (8 + k) = pf_section (b + 7) (b + 8) (coords A) 142.62232 (int k)"
proof -
  assume k: "k < 100"
  have "built b A ! (8 + k) = (take 8 (built b A) @ map (\<lambda>j. pf_section (b + 7) (b + 8) (coords A) 142.62232 (int j)) [0..<100]) ! (8 + k)"
    by (simp add: built_def)
  also have "\<dots> = map (\<lambda>j. pf_section (b + 7) (b + 8) (coords A) 142.62232 (int j)) [0..<100] ! k"
    by (simp add: nth_append length_built)
  also have "\<dots> = pf_section (b + 7) (b + 8) (coords A) 142.62232 (int k)"
    using k by simp
  finally show ?thesis .
qed

lemma sec_built:
  "heap c = h @ built (length h) A \<Longrightarrow> k < 108 \<Longrightarrow> sec c (length h + k) = built (length h) A ! k"
  by (simp add: sec_def)

lemma builder_result:
  obtains c where "builder self = Some c"
    and "heap c = heap self @ built (length (heap self)) (position self)"
    and "position c = position self"
    and "soma c = Some [length (heap self)]"
    and "dend c = Some [length (heap self) + 1, length (heap self) + 2, length (heap self) + 3,
       length (heap self) + 4]"
    and "axon c = Some ([length (heap self) + 5, length (heap self) + 6, length (heap self) + 7] @
       [length (heap self) + 8..<length (heap self) + 108])"
    and "axon_hillock c = Some (length (heap self) + 5)"
    and "axon_initial_segment c = Some (length (heap self) + 6)"
    and "ascending_axon c = Some (length (heap self) + 7)"
    and "y_pf c = Some 142.62232"
    and "parallel_fiber c = Some [length (heap self) + 8..<length (heap self) + 108]"
  using builder_eq [of self] by simp

lemma sec_soma:
  "heap c = h @ built (length h) A \<Longrightarrow> sec c (length h) = soma_section (coords A)"
  using sec_built [of c h A 0] by (simp add: built_soma)

lemma sec_dendrite:
  "heap c = h @ built (length h) A \<Longrightarrow> i < 4 \<Longrightarrow>
   sec c (length h + 1 + i) = dendrite_section (length h) A (int i)"
  using sec_built [of c h A "Suc i"] by (simp add: built_dendrite)

lemma sec_hillock:
  "heap c = h @ built (length h) A \<Longrightarrow> sec c (length h + 5) = hillock_section (length h) (coords A)"
  using sec_built [of c h A 5] by (simp add: built_hillock)

lemma sec_ais:
  "heap c = h @ built (length h) A \<Longrightarrow> sec c (length h + 6) = ais_section (length h + 5) (coords A)"
  using sec_built [of c h A 6] by (simp add: built_ais)

lemma sec_aa:
  "heap c = h @ built (length h) A \<Longrightarrow> sec c (length h + 7) = aa_section (length h + 6) (coords A)"
  using sec_built [of c h A 7] by (simp add: built_aa)

lemma sec_pf:
  "heap c = h @ built (length h) A \<Longrightarrow> k < 100 \<Longrightarrow>
   sec c (length h + 8 + k) = pf_section (length h + 7) (length h + 8) (coords A) 142.62232 (int k)"
  using sec_built [of c h A "8 + k"] by (simp add: built_pf add.assoc)

subsection \<open>The claims\<close>

text \<open>
  Claim C6. For every placement position \<open>P\<close> (the \<open>position\<close> of
  the model object, an array of floats or of integers with the entries \<open>x\<close>,
  \<open>y\<close>, \<open>z\<close>) the builder returns, \<open>self.soma\<close> is a
  list of one compartment, that compartment has length 5.62232, diameter 5.8, one segment
  and exactly two 3-D points, the first is \<open>(x, y, z)\<close>, that is
  \<open>P\<close> itself, and the second is \<open>(x, y + 5.62232, z)\<close>, that is
  \<open>P + (0, 5.62232, 0)\<close>.
\<close>

theorem soma_compartment:
  "\<exists>c s. builder self = Some c \<and> soma c = Some [s] \<and>
     L (sec c s) = Some 5.62232 \<and> diam (sec c s) = Some 5.8 \<and> nseg (sec c s) = Some 1 \<and>
     length (pts3d (sec c s)) = 2 \<and>
     (case position self of
        Float64 (x, y, z) \<Rightarrow> pts3d (sec c s) = [(x, y, z), (x, y + 5.62232, z)]
      | Int64 (x, y, z) \<Rightarrow>
          pts3d (sec c s) =
            [(real_of_int x, real_of_int y, real_of_int z),
             (real_of_int x, real_of_int y + 5.62232, real_of_int z)])"
proof -
  obtain c where c: "builder self = Some c"
    "heap c = heap self @ built (length (heap self)) (position self)"
    "soma c = Some [length (heap self)]"
    by (rule builder_result)
  from c(2) have s: "sec c (length (heap self)) = soma_section (coords (position self))"
    by (rule sec_soma)
  show ?thesis
  proof (intro exI conjI)
    show "builder self = Some c" by fact
    show "soma c = Some [length (heap self)]" by fact
    show "L (sec c (length (heap self))) = Some 5.62232"
      and "diam (sec c (length (heap self))) = Some 5.8"
      and "nseg (sec c (length (heap self))) = Some 1"
      and "length (pts3d (sec c (length (heap self)))) = 2"
      unfolding s by (simp_all add: soma_section_def)
    show "case position self of
        Float64 (x, y, z) \<Rightarrow>
          pts3d (sec c (length (heap self))) = [(x, y, z), (x, y + 5.62232, z)]
      | Int64 (x, y, z) \<Rightarrow>
          pts3d (sec c (length (heap self))) =
            [(real_of_int x, real_of_int y, real_of_int z),
             (real_of_int x, real_of_int y + 5.62232, real_of_int z)]"
      unfolding s
      by (simp add: soma_section_def coords_def vadd_def split: ndarray.split prod.split)
  qed
qed

text \<open>
  Claim C8. The axon hillock has length 1 and diameter 1.5 and is connected to
  \<open>soma[0]\<close> at end 0; the axon initial segment has length 10 and diameter 0.7
  and is connected to the hillock at end 1; both have one segment and carry the labels
  \<open>axon_hillock\<close> and \<open>axon_initial_segment\<close>.
\<close>

theorem hillock_and_initial_segment:
  "\<exists>c s h a. builder self = Some c \<and> soma c = Some [s] \<and>
     axon_hillock c = Some h \<and> axon_initial_segment c = Some a \<and>
     L (sec c h) = Some 1 \<and> diam (sec c h) = Some 1.5 \<and>
     parent (sec c h) = Some (s, Some 0) \<and>
     nseg (sec c h) = Some 1 \<and> labels (sec c h) = [''axon_hillock''] \<and>
     L (sec c a) = Some 10 \<and> diam (sec c a) = Some 0.7 \<and>
     parent (sec c a) = Some (h, Some 1) \<and>
     nseg (sec c a) = Some 1 \<and> labels (sec c a) = [''axon_initial_segment'']"
proof -
  obtain c where c: "builder self = Some c"
    "heap c = heap self @ built (length (heap self)) (position self)"
    "soma c = Some [length (heap self)]"
    "axon_hillock c = Some (length (heap self) + 5)"
    "axon_initial_segment c = Some (length (heap self) + 6)"
    by (rule builder_result)
  from c(2) have "sec c (length (heap self) + 5) =
      hillock_section (length (heap self)) (coords (position self))"
    and "sec c (length (heap self) + 6) =
      ais_section (length (heap self) + 5) (coords (position self))"
    by (rule sec_hillock, rule sec_ais)
  with c(1,3,4,5) show ?thesis
    by (simp add: hillock_section_def ais_section_def)
qed


text \<open>
  Claim C10. After the builder, \<open>self.axon\<close> holds 103 different compartments:
  the axon hillock, the axon initial segment, the ascending axon, and then the 100
  compartments of \<open>self.parallel_fiber\<close> in their order.
\<close>

theorem axon_list:
  "\<exists>c h a aa pf. builder self = Some c \<and> axon_hillock c = Some h \<and>
     axon_initial_segment c = Some a \<and> ascending_axon c = Some aa \<and>
     parallel_fiber c = Some pf \<and> length pf = 100 \<and>
     axon c = Some ([h, a, aa] @ pf) \<and> length ([h, a, aa] @ pf) = 103 \<and>
     distinct ([h, a, aa] @ pf)"
proof -
  obtain c where c: "builder self = Some c"
    "axon c = Some ([length (heap self) + 5, length (heap self) + 6, length (heap self) + 7] @
       [length (heap self) + 8..<length (heap self) + 108])"
    "axon_hillock c = Some (length (heap self) + 5)"
    "axon_initial_segment c = Some (length (heap self) + 6)"
    "ascending_axon c = Some (length (heap self) + 7)"
    "parallel_fiber c = Some [length (heap self) + 8..<length (heap self) + 108]"
    by (rule builder_result)
  then show ?thesis
    by simp
qed

lemma nth_dend: "i < 4 \<Longrightarrow> [b + 1, b + 2, b + 3, b + 4] ! i = b + 1 + (i::nat)"
proof -
  assume "i < 4"
  then have "i = 0 \<or> i = 1 \<or> i = 2 \<or> i = 3" by arith
  then show ?thesis by auto
qed

lemma range_py_nth: "j < nat n \<Longrightarrow> range_py n ! j = int j"
  by (simp add: range_py_def)

lemma length_range_py: "length (range_py n) = nat n"
  by (simp add: range_py_def)

lemma py_int_of_int: "py_int (real_of_int n) = n"
  by (simp add: py_int_def)

lemma py_int_halves:
  "py_int (real_of_int n / 2) = (if n < 0 then - ((- n) div 2) else n div 2)"
proof -
  have f: "\<lfloor>real_of_int m / 2\<rfloor> = m div 2" for m
    using floor_divide_of_int_eq [of m 2, where ?'a = real] by simp
  have "\<lceil>real_of_int n / 2\<rceil> = - \<lfloor>real_of_int (- n) / 2\<rfloor>"
    by (simp add: ceiling_def)
  then have c: "\<lceil>real_of_int n / 2\<rceil> = - ((- n) div 2)"
    by (simp only: f)
  show ?thesis
    by (simp add: py_int_def f c)
qed

lemma py_int_lowered:
  "py_int (real_of_int y - 15 * real_of_int k / 10) =
     (if 3 * k \<le> 2 * y then y - (3 * k + 1) div 2 else y - 3 * k div 2)"
proof -
  have "real_of_int y - 15 * real_of_int k / 10 = real_of_int (2 * y - 3 * k) / 2"
    by simp
  then have "py_int (real_of_int y - 15 * real_of_int k / 10) =
      (if 2 * y - 3 * k < 0 then - ((- (2 * y - 3 * k)) div 2) else (2 * y - 3 * k) div 2)"
    by (simp only: py_int_halves)
  also have "\<dots> = (if 3 * k \<le> 2 * y then y - (3 * k + 1) div 2 else y - 3 * k div 2)"
    by presburger
  finally show ?thesis .
qed

lemma py_int_shifted: "py_int (real_of_int x + (real_of_int i - 1.5) * 2) = x + 2 * i - 3"
proof -
  have "real_of_int x + (real_of_int i - 1.5) * 2 = real_of_int (x + 2 * i - 3)"
    by simp
  then show ?thesis
    by (simp only: py_int_of_int)
qed

lemmas array_ops = setitem0_def setitem1_def item0_def item1_def item2_def coords_def
  vx_def vy_def vz_def

lemma length_dendrite_pts: "length (pts3d (dendrite_section s0 A i)) = 10"
  by (simp add: dendrite_section_def dendrite_points_def length_range_py)

lemma dendrite_pts_float:
  "j < 10 \<Longrightarrow> pts3d (dendrite_section s0 (Float64 (x, y, z)) i) ! j =
     (x + (real_of_int i - 1.5) * 2, y - 15 * real j / 10, z)"
  by (simp add: dendrite_section_def dendrite_points_def length_range_py range_py_nth array_ops)

lemma dendrite_pts_int:
  "j < 10 \<Longrightarrow> pts3d (dendrite_section s0 (Int64 (x, y, z)) i) ! j =
     (real_of_int x + (real_of_int i - 1.5) * 2,
      real_of_int (if 3 * int j \<le> 2 * y then y - (3 * int j + 1) div 2 else y - 3 * int j div 2),
      real_of_int z)"
proof -
  assume j: "j < 10"
  have "pts3d (dendrite_section s0 (Int64 (x, y, z)) i) ! j =
      (real_of_int (py_int (real_of_int x + (real_of_int i - 1.5) * 2)),
       real_of_int (py_int (real_of_int y - 15 * real_of_int (int j) / 10)),
       real_of_int z)"
    using j
    by (simp add: dendrite_section_def dendrite_points_def length_range_py range_py_nth array_ops)
  then show ?thesis
    by (simp only: py_int_shifted py_int_lowered) simp
qed

lemma dendrite_pts_descend:
  assumes "j < 9"
  shows "fst (snd (pts3d (dendrite_section s0 A i) ! Suc j))
    < fst (snd (pts3d (dendrite_section s0 A i) ! j))"
proof (cases A)
  case (Float64 v)
  obtain x y z where "v = (x, y, z)" by (cases v) auto
  with Float64 assms show ?thesis
    by (simp add: dendrite_pts_float)
next
  case (Int64 v)
  obtain x y z where v: "v = (x, y, z)" by (cases v) auto
  define f where "f k = (if 3 * k \<le> 2 * y then y - (3 * k + 1) div 2 else y - 3 * k div 2)"
    for k :: int
  have lt: "f (int (Suc j)) < f (int j)"
    unfolding f_def by presburger
  have p: "pts3d (dendrite_section s0 A i) ! k =
      (real_of_int x + (real_of_int i - 1.5) * 2, real_of_int (f (int k)), real_of_int z)"
    if "k < 10" for k
    unfolding Int64 v f_def using that by (rule dendrite_pts_int)
  from assms have "j < 10" and "Suc j < 10"
    by simp_all
  then show ?thesis
    using lt by (simp add: p)
qed

text \<open>
  Claim C7. The builder creates exactly 4 different dendrites. Each has length 15 and
  diameter 0.75 and is connected to \<open>soma[0]\<close> at end 0. Dendrite
  \<open>i\<close> has exactly 10 3-D points; the \<open>j\<close>-th is the placement
  position \<open>(x, y, z)\<close> moved by \<open>(i - 1.5) * 2\<close> along X and
  lowered by \<open>15 * j / 10\<close> along Y. When the position is an array of integers,
  the lowered Y coordinate is stored in that array and so truncated towards zero. In both
  cases the Y coordinates strictly descend from the offset origin (the point \<open>j =
  0\<close>).
\<close>

theorem dendrite_compartments:
  "\<exists>c s ds. builder self = Some c \<and> soma c = Some [s] \<and> dend c = Some ds \<and>
     length ds = 4 \<and> distinct ds \<and>
     (\<forall>i<4. L (sec c (ds ! i)) = Some 15 \<and> diam (sec c (ds ! i)) = Some 0.75 \<and>
        length (pts3d (sec c (ds ! i))) = 10 \<and>
        (case position self of
           Float64 (x, y, z) \<Rightarrow>
             \<forall>j<10. pts3d (sec c (ds ! i)) ! j =
               (x + (real i - 1.5) * 2, y - 15 * real j / 10, z)
         | Int64 (x, y, z) \<Rightarrow>
             \<forall>j<10. pts3d (sec c (ds ! i)) ! j =
               (real_of_int x + (real i - 1.5) * 2,
                real_of_int (if 3 * int j \<le> 2 * y then y - (3 * int j + 1) div 2
                  else y - 3 * int j div 2),
                real_of_int z)) \<and>
        (\<forall>j<9. fst (snd (pts3d (sec c (ds ! i)) ! Suc j))
           < fst (snd (pts3d (sec c (ds ! i)) ! j))) \<and>
        parent (sec c (ds ! i)) = Some (s, Some 0))"
proof -
  let ?b = "length (heap self)"
  let ?A = "position self"
  let ?ds = "[?b + 1, ?b + 2, ?b + 3, ?b + 4]"
  obtain c where c: "builder self = Some c"
    "heap c = heap self @ built ?b ?A"
    "soma c = Some [?b]"
    "dend c = Some ?ds"
    by (rule builder_result)
  have dend_i: "L (sec c (?ds ! i)) = Some 15 \<and> diam (sec c (?ds ! i)) = Some 0.75 \<and>
        length (pts3d (sec c (?ds ! i))) = 10 \<and>
        (case ?A of
           Float64 (x, y, z) \<Rightarrow>
             \<forall>j<10. pts3d (sec c (?ds ! i)) ! j =
               (x + (real i - 1.5) * 2, y - 15 * real j / 10, z)
         | Int64 (x, y, z) \<Rightarrow>
             \<forall>j<10. pts3d (sec c (?ds ! i)) ! j =
               (real_of_int x + (real i - 1.5) * 2,
                real_of_int (if 3 * int j \<le> 2 * y then y - (3 * int j + 1) div 2
                  else y - 3 * int j div 2),
                real_of_int z)) \<and>
        (\<forall>j<9. fst (snd (pts3d (sec c (?ds ! i)) ! Suc j))
           < fst (snd (pts3d (sec c (?ds ! i)) ! j))) \<and>
        parent (sec c (?ds ! i)) = Some (?b, Some 0)"
    if i: "i < 4" for i
  proof -
    have s: "sec c (?ds ! i) = dendrite_section ?b ?A (int i)"
      using sec_dendrite [OF c(2) i] nth_dend [OF i, of ?b] by simp
    show ?thesis
      unfolding s
    proof (intro conjI)
      show "L (dendrite_section ?b ?A (int i)) = Some 15"
        and "diam (dendrite_section ?b ?A (int i)) = Some 0.75"
        and "parent (dendrite_section ?b ?A (int i)) = Some (?b, Some 0)"
        by (simp_all add: dendrite_section_def)
      show "length (pts3d (dendrite_section ?b ?A (int i))) = 10"
        by (rule length_dendrite_pts)
      show "\<forall>j<9. fst (snd (pts3d (dendrite_section ?b ?A (int i)) ! Suc j))
           < fst (snd (pts3d (dendrite_section ?b ?A (int i)) ! j))"
        using dendrite_pts_descend by blast
      show "case ?A of
           Float64 (x, y, z) \<Rightarrow>
             \<forall>j<10. pts3d (dendrite_section ?b ?A (int i)) ! j =
               (x + (real i - 1.5) * 2, y - 15 * real j / 10, z)
         | Int64 (x, y, z) \<Rightarrow>
             \<forall>j<10. pts3d (dendrite_section ?b ?A (int i)) ! j =
               (real_of_int x + (real i - 1.5) * 2,
                real_of_int (if 3 * int j \<le> 2 * y then y - (3 * int j + 1) div 2
                  else y - 3 * int j div 2),
                real_of_int z)"
        by (simp add: dendrite_pts_float dendrite_pts_int split: ndarray.split prod.split)
    qed
  qed
  show ?thesis
  proof (intro exI conjI)
    show "builder self = Some c" by fact
    show "soma c = Some [?b]" by fact
    show "dend c = Some ?ds" by fact
    show "length ?ds = 4" by simp
    show "distinct ?ds" by simp
    show "\<forall>i<4. L (sec c (?ds ! i)) = Some 15 \<and> diam (sec c (?ds ! i)) = Some 0.75 \<and>
        length (pts3d (sec c (?ds ! i))) = 10 \<and>
        (case ?A of
           Float64 (x, y, z) \<Rightarrow>
             \<forall>j<10. pts3d (sec c (?ds ! i)) ! j =
               (x + (real i - 1.5) * 2, y - 15 * real j / 10, z)
         | Int64 (x, y, z) \<Rightarrow>
             \<forall>j<10. pts3d (sec c (?ds ! i)) ! j =
               (real_of_int x + (real i - 1.5) * 2,
                real_of_int (if 3 * int j \<le> 2 * y then y - (3 * int j + 1) div 2
                  else y - 3 * int j div 2),
                real_of_int z)) \<and>
        (\<forall>j<9. fst (snd (pts3d (sec c (?ds ! i)) ! Suc j))
           < fst (snd (pts3d (sec c (?ds ! i)) ! j))) \<and>
        parent (sec c (?ds ! i)) = Some (?b, Some 0)"
      using dend_i by blast
  qed
qed

text \<open>
  The same at the array of integers \<open>[0, 0, 1]\<close>, for dendrite 0 and its point
  1: the Y coordinate \<open>0 - 1.5\<close> is stored as \<open>-1\<close>.
\<close>

theorem dendrite_compartments_witness:
  "\<exists>c s ds. builder ((new_model (0, 0, 0))\<lparr>position := Int64 (0, 0, 1)\<rparr>) = Some c \<and>
     soma c = Some [s] \<and> dend c = Some ds \<and> length ds = 4 \<and>
     L (sec c (ds ! 0)) = Some 15 \<and> diam (sec c (ds ! 0)) = Some 0.75 \<and>
     length (pts3d (sec c (ds ! 0))) = 10 \<and>
     pts3d (sec c (ds ! 0)) ! 1 = (- 3, - 1, 1) \<and>
     fst (snd (pts3d (sec c (ds ! 0)) ! 1)) < fst (snd (pts3d (sec c (ds ! 0)) ! 0)) \<and>
     parent (sec c (ds ! 0)) = Some (s, Some 0)"
proof -
  let ?m = "(new_model (0, 0, 0))\<lparr>position := Int64 (0, 0, 1)\<rparr>"
  obtain c s ds where c: "builder ?m = Some c" "soma c = Some [s]" "dend c = Some ds"
    "length ds = 4"
    and all: "\<forall>i<4. L (sec c (ds ! i)) = Some 15 \<and> diam (sec c (ds ! i)) = Some 0.75 \<and>
        length (pts3d (sec c (ds ! i))) = 10 \<and>
        (case position ?m of
           Float64 (x, y, z) \<Rightarrow>
             \<forall>j<10. pts3d (sec c (ds ! i)) ! j =
               (x + (real i - 1.5) * 2, y - 15 * real j / 10, z)
         | Int64 (x, y, z) \<Rightarrow>
             \<forall>j<10. pts3d (sec c (ds ! i)) ! j =
               (real_of_int x + (real i - 1.5) * 2,
                real_of_int (if 3 * int j \<le> 2 * y then y - (3 * int j + 1) div 2
                  else y - 3 * int j div 2),
                real_of_int z)) \<and>
        (\<forall>j<9. fst (snd (pts3d (sec c (ds ! i)) ! Suc j))
           < fst (snd (pts3d (sec c (ds ! i)) ! j))) \<and>
        parent (sec c (ds ! i)) = Some (s, Some 0)"
    using dendrite_compartments [of ?m] by blast
  have "(0::nat) < 4" by simp
  with all have zero: "L (sec c (ds ! 0)) = Some 15" "diam (sec c (ds ! 0)) = Some 0.75"
    "length (pts3d (sec c (ds ! 0))) = 10"
    "case position ?m of
           Float64 (x, y, z) \<Rightarrow>
             \<forall>j<10. pts3d (sec c (ds ! 0)) ! j =
               (x + (real 0 - 1.5) * 2, y - 15 * real j / 10, z)
         | Int64 (x, y, z) \<Rightarrow>
             \<forall>j<10. pts3d (sec c (ds ! 0)) ! j =
               (real_of_int x + (real 0 - 1.5) * 2,
                real_of_int (if 3 * int j \<le> 2 * y then y - (3 * int j + 1) div 2
                  else y - 3 * int j div 2),
                real_of_int z)"
    "\<forall>j<9. fst (snd (pts3d (sec c (ds ! 0)) ! Suc j))
           < fst (snd (pts3d (sec c (ds ! 0)) ! j))"
    "parent (sec c (ds ! 0)) = Some (s, Some 0)"
    by blast+
  from zero(4) have "\<forall>j<10. pts3d (sec c (ds ! 0)) ! j =
      (real_of_int 0 + (real 0 - 1.5) * 2,
       real_of_int (if 3 * int j \<le> 2 * 0 then 0 - (3 * int j + 1) div 2 else 0 - 3 * int j div 2),
       real_of_int 1)"
    by simp
  moreover have "(1::nat) < 10" by simp
  ultimately have "pts3d (sec c (ds ! 0)) ! 1 =
      (real_of_int 0 + (real 0 - 1.5) * 2,
       real_of_int (if 3 * int 1 \<le> 2 * 0 then 0 - (3 * int 1 + 1) div 2 else 0 - 3 * int 1 div 2),
       real_of_int 1)"
    by blast
  then have one: "pts3d (sec c (ds ! 0)) ! 1 = (- 3, - 1, 1)"
    by simp
  have "(0::nat) < 9" by simp
  with zero(5) have "fst (snd (pts3d (sec c (ds ! 0)) ! Suc 0))
      < fst (snd (pts3d (sec c (ds ! 0)) ! 0))"
    by blast
  then have desc: "fst (snd (pts3d (sec c (ds ! 0)) ! 1)) < fst (snd (pts3d (sec c (ds ! 0)) ! 0))"
    by simp
  from c zero(1,2,3,6) one desc show ?thesis
    by blast
qed

lemma parent_pf:
  "heap c = h @ built (length h) A \<Longrightarrow> k < 100 \<Longrightarrow>
   parent (sec c (length h + 8 + k)) =
     Some (if k < 2 then length h + 7 else length h + 8 + (k - 2), None)"
  by (simp add: sec_pf pf_section_def nat_diff_distrib')

lemma parent_chain_pf:
  assumes "heap c = h @ built (length h) A"
  shows "i < 100 \<Longrightarrow> i div 2 = n \<Longrightarrow>
    parent_chain c (Suc n) (length h + 8 + i) =
      map (\<lambda>k. length h + 8 + (i - 2 * k)) [1..<Suc n] @ [length h + 7]"
proof (induction n arbitrary: i)
  case 0
  then have "i < 2" by arith
  with 0 assms show ?case
    by (simp add: parent_pf)
next
  case (Suc n)
  then have i: "2 \<le> i" "i - 2 < 100" "(i - 2) div 2 = n" by arith+
  have upt: "[1..<Suc (Suc n)] = 1 # map Suc [1..<Suc n]"
    by (simp add: map_Suc_upt upt_conv_Cons del: upt_Suc)
  have "parent_chain c (Suc (Suc n)) (length h + 8 + i) =
      (length h + 8 + (i - 2)) # parent_chain c (Suc n) (length h + 8 + (i - 2))"
    using assms Suc.prems(1) i(1) by (simp add: parent_pf)
  also have "parent_chain c (Suc n) (length h + 8 + (i - 2)) =
      map (\<lambda>k. length h + 8 + (i - 2 - 2 * k)) [1..<Suc n] @ [length h + 7]"
    using i(2,3) by (rule Suc.IH)
  finally show ?case
    unfolding upt by (simp add: comp_def diff_diff_eq del: upt_Suc)
qed

text \<open>
  Claim C2. The parallel fiber consists of exactly \<open>int(2000 / 20) = 100\<close>
  different compartments, each of length 20 and diameter 0.3. Compartments 0 and 1 are
  connected to the ascending axon and compartment \<open>i \<ge> 2\<close> to compartment
  \<open>i - 2\<close>. Hence the ancestors of compartment \<open>i\<close> are the
  compartments \<open>i - 2, i - 4, ...\<close> of its own parity and then the ascending
  axon: two independent chains, both rooted at the ascending axon.
\<close>

theorem parallel_fiber_chain:
  "\<exists>c aa pf. builder self = Some c \<and> ascending_axon c = Some aa \<and>
     parallel_fiber c = Some pf \<and> py_int (2000 / 20) = 100 \<and> length pf = 100 \<and> distinct pf \<and>
     aa \<notin> set pf \<and>
     (\<forall>i<100. L (sec c (pf ! i)) = Some 20 \<and> diam (sec c (pf ! i)) = Some 0.3 \<and>
        parent (sec c (pf ! i)) = Some (if i < 2 then aa else pf ! (i - 2), None) \<and>
        parent_chain c (i div 2 + 1) (pf ! i) =
          map (\<lambda>k. pf ! (i - 2 * k)) [1..<i div 2 + 1] @ [aa])"
proof -
  let ?b = "length (heap self)"
  let ?pf = "[?b + 8..<?b + 108]"
  obtain c where c: "builder self = Some c"
    "heap c = heap self @ built ?b (position self)"
    "ascending_axon c = Some (?b + 7)"
    "parallel_fiber c = Some ?pf"
    by (rule builder_result)
  have nth: "?pf ! k = ?b + 8 + k" if "k < 100" for k
    using that by simp
  have pf_i: "L (sec c (?pf ! i)) = Some 20 \<and> diam (sec c (?pf ! i)) = Some 0.3 \<and>
        parent (sec c (?pf ! i)) = Some (if i < 2 then ?b + 7 else ?pf ! (i - 2), None) \<and>
        parent_chain c (i div 2 + 1) (?pf ! i) =
          map (\<lambda>k. ?pf ! (i - 2 * k)) [1..<i div 2 + 1] @ [?b + 7]"
    if i: "i < 100" for i
  proof -
    have "map (\<lambda>k. ?pf ! (i - 2 * k)) [1..<i div 2 + 1] =
        map (\<lambda>k. ?b + 8 + (i - 2 * k)) [1..<i div 2 + 1]"
      using i by (intro map_cong refl nth) simp
    moreover have "?pf ! (i - 2) = ?b + 8 + (i - 2)"
      using i by (intro nth) simp
    moreover have "sec c (?b + 8 + i) = pf_section (?b + 7) (?b + 8) (coords (position self)) 142.62232 (int i)"
      using c(2) i by (rule sec_pf)
    ultimately show ?thesis
      using parent_chain_pf [OF c(2) i refl] parent_pf [OF c(2) i] nth [OF i]
      by (simp add: pf_section_def)
  qed
  show ?thesis
  proof (intro exI conjI)
    show "builder self = Some c" by fact
    show "ascending_axon c = Some (?b + 7)" by fact
    show "parallel_fiber c = Some ?pf" by fact
    show "py_int (2000 / 20) = 100" by (simp add: py_int_def)
    show "length ?pf = 100" by simp
    show "distinct ?pf" by simp
    show "?b + 7 \<notin> set ?pf" by simp
    show "\<forall>i<100. L (sec c (?pf ! i)) = Some 20 \<and> diam (sec c (?pf ! i)) = Some 0.3 \<and>
        parent (sec c (?pf ! i)) = Some (if i < 2 then ?b + 7 else ?pf ! (i - 2), None) \<and>
        parent_chain c (i div 2 + 1) (?pf ! i) =
          map (\<lambda>k. ?pf ! (i - 2 * k)) [1..<i div 2 + 1] @ [?b + 7]"
      using pf_i by blast
  qed
qed

text \<open>
  The same at the placement position \<open>(1, 2, 3)\<close>, for compartment 5: its
  ancestors are the compartments 3 and 1 and the ascending axon.
\<close>

theorem parallel_fiber_chain_witness:
  "\<exists>c aa pf. builder (new_model (1, 2, 3)) = Some c \<and> ascending_axon c = Some aa \<and>
     parallel_fiber c = Some pf \<and> length pf = 100 \<and>
     L (sec c (pf ! 5)) = Some 20 \<and> diam (sec c (pf ! 5)) = Some 0.3 \<and>
     parent (sec c (pf ! 5)) = Some (pf ! 3, None) \<and>
     parent (sec c (pf ! 1)) = Some (aa, None) \<and>
     parent_chain c 3 (pf ! 5) = [pf ! 3, pf ! 1, aa]"
proof -
  let ?m = "new_model (1, 2, 3)"
  obtain c aa pf where c: "builder ?m = Some c" "ascending_axon c = Some aa"
    "parallel_fiber c = Some pf" "length pf = 100"
    and all: "\<forall>i<100. L (sec c (pf ! i)) = Some 20 \<and> diam (sec c (pf ! i)) = Some 0.3 \<and>
        parent (sec c (pf ! i)) = Some (if i < 2 then aa else pf ! (i - 2), None) \<and>
        parent_chain c (i div 2 + 1) (pf ! i) =
          map (\<lambda>k. pf ! (i - 2 * k)) [1..<i div 2 + 1] @ [aa]"
    using parallel_fiber_chain [of ?m] by blast
  have "(5::nat) < 100" and "(1::nat) < 100"
    by simp_all
  with all have five: "L (sec c (pf ! 5)) = Some 20 \<and> diam (sec c (pf ! 5)) = Some 0.3 \<and>
        parent (sec c (pf ! 5)) = Some (if (5::nat) < 2 then aa else pf ! (5 - 2), None) \<and>
        parent_chain c (5 div 2 + 1) (pf ! 5) =
          map (\<lambda>k. pf ! (5 - 2 * k)) [1..<5 div 2 + 1] @ [aa]"
    and one: "L (sec c (pf ! 1)) = Some 20 \<and> diam (sec c (pf ! 1)) = Some 0.3 \<and>
        parent (sec c (pf ! 1)) = Some (if (1::nat) < 2 then aa else pf ! (1 - 2), None) \<and>
        parent_chain c (1 div 2 + 1) (pf ! 1) =
          map (\<lambda>k. pf ! (1 - 2 * k)) [1..<1 div 2 + 1] @ [aa]"
    by blast+
  have n: "(5::nat) div 2 + 1 = 3" and u: "[1..<3] = [1, 2::nat]"
    by (simp_all add: upt_rec)
  from five have five': "L (sec c (pf ! 5)) = Some 20" "diam (sec c (pf ! 5)) = Some 0.3"
    "parent (sec c (pf ! 5)) = Some (pf ! 3, None)"
    "parent_chain c 3 (pf ! 5) = [pf ! 3, pf ! 1, aa]"
    unfolding n u by simp_all
  from one have "parent (sec c (pf ! 1)) = Some (aa, None)"
    by simp
  with c five' show ?thesis
    by blast
qed

lemma root_reaches:
  assumes top: "parent (sec c s) = None"
    and up: "\<And>r. s < r \<Longrightarrow> r < N \<Longrightarrow> \<exists>p e. parent (sec c r) = Some (p, e) \<and> s \<le> p \<and> p < r"
  shows "s \<le> r \<Longrightarrow> r < N \<Longrightarrow> r - s \<le> n \<Longrightarrow> root c n r = Some s"
proof (induction n arbitrary: r)
  case 0
  then have "r = s" by simp
  with top show ?case by simp
next
  case (Suc n)
  show ?case
  proof (cases "r = s")
    case True
    with top show ?thesis by simp
  next
    case False
    with Suc.prems have "s < r" by simp
    with up Suc.prems obtain p e where p: "parent (sec c r) = Some (p, e)" "s \<le> p" "p < r"
      by blast
    with Suc.prems have "root c n p = Some s"
      by (intro Suc.IH) simp_all
    with p show ?thesis by simp
  qed
qed

lemma parent_built:
  assumes "heap c = h @ built (length h) A" and "0 < k" and "k < 108"
  shows "\<exists>p e. parent (sec c (length h + k)) = Some (p, e) \<and> length h \<le> p \<and> p < length h + k"
proof -
  consider "k < 5" | "k = 5" | "k = 6" | "k = 7" | "8 \<le> k"
    by arith
  then show ?thesis
  proof cases
    case 1
    with assms(2) obtain i where i: "k = Suc i" "i < 4"
      by (cases k) auto
    with sec_dendrite [OF assms(1) i(2)] show ?thesis
      by (simp add: dendrite_section_def)
  next
    case 2
    with sec_hillock [OF assms(1)] show ?thesis
      by (simp add: hillock_section_def)
  next
    case 3
    with sec_ais [OF assms(1)] show ?thesis
      by (simp add: ais_section_def)
  next
    case 4
    with sec_aa [OF assms(1)] show ?thesis
      by (simp add: aa_section_def)
  next
    case 5
    then obtain i where i: "k = 8 + i"
      using le_Suc_ex by blast
    with assms(3) have "i < 100" by simp
    from parent_pf [OF assms(1) this] i show ?thesis
      by (auto simp add: add.assoc)
  qed
qed

text \<open>
  Claim C4. The builder creates 108 compartments and leaves the older ones alone. In
  creation order they are \<open>soma[0]\<close>, the 4 dendrites and the 103 compartments
  of the axon list. \<open>soma[0]\<close> has no parent; every other compartment has one
  parent connection, to a compartment of this cell that was created before it. So walking up
  from any compartment ends at \<open>soma[0]\<close>: a tree with that single root and no
  cycle.
\<close>

theorem compartment_tree:
  "\<exists>c s ds ax. builder self = Some c \<and> soma c = Some [s] \<and> dend c = Some ds \<and>
     axon c = Some ax \<and> length ds = 4 \<and> length ax = 103 \<and>
     s = length (heap self) \<and> take s (heap c) = heap self \<and> length (heap c) = s + 108 \<and>
     s # ds @ ax = [s..<s + 108] \<and>
     parent (sec c s) = None \<and>
     (\<forall>r. s < r \<and> r < s + 108 \<longrightarrow>
        (\<exists>p e. parent (sec c r) = Some (p, e) \<and> s \<le> p \<and> p < r)) \<and>
     (\<forall>r. s \<le> r \<and> r < s + 108 \<longrightarrow> root c 108 r = Some s)"
proof -
  let ?b = "length (heap self)"
  let ?ds = "[?b + 1, ?b + 2, ?b + 3, ?b + 4]"
  let ?ax = "[?b + 5, ?b + 6, ?b + 7] @ [?b + 8..<?b + 108]"
  obtain c where c: "builder self = Some c"
    "heap c = heap self @ built ?b (position self)"
    "soma c = Some [?b]"
    "dend c = Some ?ds"
    "axon c = Some ?ax"
    by (rule builder_result)
  have top: "parent (sec c ?b) = None"
    using sec_soma [OF c(2)] by (simp add: soma_section_def)
  have up: "\<exists>p e. parent (sec c r) = Some (p, e) \<and> ?b \<le> p \<and> p < r"
    if "?b < r" "r < ?b + 108" for r
  proof -
    from that obtain k where "r = ?b + k" "0 < k" "k < 108"
      by (metis add_diff_inverse_nat less_imp_le_nat nat_add_left_cancel_less not_less zero_less_diff)
    with parent_built [OF c(2), of k] show ?thesis by simp
  qed
  have reach: "root c 108 r = Some ?b" if "?b \<le> r" "r < ?b + 108" for r
  proof (rule root_reaches [OF top up])
    show "?b \<le> r" "r < ?b + 108" by fact+
    from that show "r - ?b \<le> 108" by arith
  qed
  have upt: "[?b..<?b + 108] = ?b # ?ds @ ?ax"
  proof -
    have e: "?b + 8 + 100 = ?b + 108" by simp
    have "[?b..<?b + 108] = [?b..<?b + 8] @ [?b + 8..<?b + 108]"
      using upt_add_eq_append [of ?b "?b + 8" 100] unfolding e by simp
    also have "[?b..<?b + 8] = ?b # ?ds @ [?b + 5, ?b + 6, ?b + 7]"
      by (simp add: upt_conv_Cons)
    finally show ?thesis by simp
  qed
  show ?thesis
  proof (intro exI conjI)
    show "builder self = Some c" by fact
    show "soma c = Some [?b]" by fact
    show "dend c = Some ?ds" by fact
    show "axon c = Some ?ax" by fact
    show "length ?ds = 4" by simp
    show "length ?ax = 103" by simp
    show "?b = length (heap self)" by simp
    show "take ?b (heap c) = heap self" by (simp add: c(2))
    show "length (heap c) = ?b + 108" by (simp add: c(2) length_built)
    show "?b # ?ds @ ?ax = [?b..<?b + 108]" by (rule upt [symmetric])
    show "parent (sec c ?b) = None" by fact
    show "\<forall>r. ?b < r \<and> r < ?b + 108 \<longrightarrow>
        (\<exists>p e. parent (sec c r) = Some (p, e) \<and> ?b \<le> p \<and> p < r)"
      using up by blast
    show "\<forall>r. ?b \<le> r \<and> r < ?b + 108 \<longrightarrow> root c 108 r = Some ?b"
      using reach by blast
  qed
qed

text \<open>
  The same at the placement position \<open>(1, 2, 3)\<close> on a fresh model object, for
  the last compartment of the parallel fiber.
\<close>

theorem compartment_tree_witness:
  "\<exists>c s. builder (new_model (1, 2, 3)) = Some c \<and> soma c = Some [s] \<and> s = 0 \<and>
     length (heap c) = 108 \<and> parent (sec c s) = None \<and>
     (\<exists>p e. parent (sec c 107) = Some (p, e) \<and> p < 107) \<and>
     root c 108 107 = Some s"
proof -
  let ?m = "new_model (1, 2, 3)"
  have b: "length (heap ?m) = 0"
    by (simp add: new_model_def)
  obtain c s where c: "builder ?m = Some c" "soma c = Some [s]" "s = length (heap ?m)"
    "length (heap c) = s + 108" "parent (sec c s) = None"
    and up: "\<forall>r. s < r \<and> r < s + 108 \<longrightarrow>
        (\<exists>p e. parent (sec c r) = Some (p, e) \<and> s \<le> p \<and> p < r)"
    and reach: "\<forall>r. s \<le> r \<and> r < s + 108 \<longrightarrow> root c 108 r = Some s"
    using compartment_tree [of ?m] by blast
  from c(3) b have s: "s = 0" by simp
  from up s have "\<exists>p e. parent (sec c 107) = Some (p, e) \<and> p < 107"
    by auto
  moreover from reach s have "root c 108 107 = Some s"
    by simp
  ultimately show ?thesis
    using c s by auto
qed






text \<open>
  The 3-D points of the parallel fiber for every placement position \<open>P\<close> and
  every index \<open>i\<close>: both points are \<open>P\<close> plus an offset whose Y
  component is \<open>y_pf\<close> and whose Z component is the center \<open>P.z\<close>
  plus \<open>sign * z\<close> or \<open>sign * (z + 20)\<close>. The Z coordinates
  themselves are therefore \<open>2 * P.z + sign * z\<close> and \<open>2 * P.z + sign * (z
  + 20)\<close>.
\<close>

lemma parallel_fiber_points:
  "\<exists>c pf. builder self = Some c \<and> parallel_fiber c = Some pf \<and> length pf = 100 \<and>
     (\<forall>i<100. pts3d (sec c (pf ! i)) =
        [vadd (coords (position self)) (0, 142.62232,
           vz (coords (position self)) + real_of_int ((1 - (int i mod 2) * 2) * (int i div 2 * 20))),
         vadd (coords (position self)) (0, 142.62232,
           vz (coords (position self)) + real_of_int ((1 - (int i mod 2) * 2) * (int i div 2 * 20 + 20)))])"
proof -
  let ?b = "length (heap self)"
  let ?pf = "[?b + 8..<?b + 108]"
  obtain c where c: "builder self = Some c"
    "heap c = heap self @ built ?b (position self)"
    "parallel_fiber c = Some ?pf"
    by (rule builder_result)
  have fl: "\<lfloor>real_of_int (int i) / 2\<rfloor> = int i div 2" for i
    using floor_divide_of_int_eq [of "int i" 2, where ?'a = real] by simp
  have pts: "pts3d (sec c (?pf ! i)) =
        [vadd (coords (position self)) (0, 142.62232,
           vz (coords (position self)) + real_of_int ((1 - (int i mod 2) * 2) * (int i div 2 * 20))),
         vadd (coords (position self)) (0, 142.62232,
           vz (coords (position self)) + real_of_int ((1 - (int i mod 2) * 2) * (int i div 2 * 20 + 20)))]"
    if i: "i < 100" for i
  proof -
    have "?pf ! i = ?b + 8 + i" using i by simp
    with sec_pf [OF c(2) i] show ?thesis
      by (simp only: pf_section_def fl section_obj.simps)
  qed
  show ?thesis
  proof (intro exI conjI)
    show "builder self = Some c" by fact
    show "parallel_fiber c = Some ?pf" by fact
    show "length ?pf = 100" by simp
    show "\<forall>i<100. pts3d (sec c (?pf ! i)) =
        [vadd (coords (position self)) (0, 142.62232,
           vz (coords (position self)) + real_of_int ((1 - (int i mod 2) * 2) * (int i div 2 * 20))),
         vadd (coords (position self)) (0, 142.62232,
           vz (coords (position self)) + real_of_int ((1 - (int i mod 2) * 2) * (int i div 2 * 20 + 20)))]"
      using pts by blast
  qed
qed

text \<open>
  Claim C1, evaluated at the placement position \<open>(0, 0, 1)\<close>, whose center Z
  coordinate is 1. The ascending axon ends at \<open>Z = 1\<close>. The claim places
  compartment 0 of the parallel fiber at the Z offsets 0 and 20 from the center and
  compartment 1 at 0 and -20, that is from Z = 1 to Z = 21 and from Z = 1 to Z = -19. The
  builder places them from Z = 2 to Z = 22 and from Z = 2 to Z = -18: it puts \<open>center
  = position[2]\<close> into the offset and then adds the offset to the position, so the Z
  coordinate of the position is counted twice.
\<close>

theorem parallel_fiber_z_counts_center_twice:
  "\<exists>c aa pf. builder (new_model (0, 0, 1)) = Some c \<and> ascending_axon c = Some aa \<and>
     parallel_fiber c = Some pf \<and> position c = Float64 (0, 0, 1) \<and>
     last (pts3d (sec c aa)) = (0, 142.62232, 1) \<and>
     pts3d (sec c (pf ! 0)) = [(0, 142.62232, 2), (0, 142.62232, 22)] \<and>
     pts3d (sec c (pf ! 1)) = [(0, 142.62232, 2), (0, 142.62232, - 18)]"
proof -
  let ?m = "new_model (0, 0, 1)"
  have b: "length (heap ?m) = 0" and P: "position ?m = Float64 (0, 0, 1)"
    by (simp_all add: new_model_def)
  obtain c where c: "builder ?m = Some c"
    "heap c = heap ?m @ built (length (heap ?m)) (position ?m)"
    "position c = position ?m"
    "ascending_axon c = Some (length (heap ?m) + 7)"
    "parallel_fiber c = Some [length (heap ?m) + 8..<length (heap ?m) + 108]"
    by (rule builder_result)
  have aa: "sec c 7 = aa_section 6 (0, 0, 1)"
    using sec_aa [OF c(2)] by (simp add: b P coords_def)
  have p0: "sec c 8 = pf_section 7 8 (0, 0, 1) 142.62232 0"
    using sec_pf [OF c(2), of 0] by (simp add: b P coords_def)
  have p1: "sec c 9 = pf_section 7 8 (0, 0, 1) 142.62232 1"
    using sec_pf [OF c(2), of 1] by (simp add: b P coords_def)
  have n0: "[8..<108] ! 0 = (8::nat)" and n1: "[8..<108] ! 1 = (9::nat)"
    by (simp_all del: upt_rec_numeral)
  show ?thesis
  proof (intro exI conjI)
    show "builder ?m = Some c" by fact
    show "ascending_axon c = Some 7" using c(4) by (simp add: b)
    show "parallel_fiber c = Some [8..<108]" using c(5) by (simp add: b del: upt_rec_numeral)
    show "position c = Float64 (0, 0, 1)" by (simp add: c(3) P)
    show "last (pts3d (sec c 7)) = (0, 142.62232, 1)"
      by (simp add: aa aa_section_def fraction_def vadd_def)
    show "pts3d (sec c ([8..<108] ! 0)) = [(0, 142.62232, 2), (0, 142.62232, 22)]"
      unfolding n0 by (simp add: p0 pf_section_def vadd_def vz_def)
    show "pts3d (sec c ([8..<108] ! 1)) = [(0, 142.62232, 2), (0, 142.62232, - 18)]"
      unfolding n1 by (simp add: p1 pf_section_def vadd_def vz_def)
  qed
qed

lemmas table_defs =
  GranuleCell_section_types_def GranuleCellMildAdapting_section_types_def
  GranuleCellAdapting_section_types_def GranuleCellAccelerate_section_types_def

lemmas synapse_defs =
  GranuleCell_synapse_types_def GranuleCellMildAdapting_synapse_types_def
  GranuleCellAdapting_synapse_types_def GranuleCellAccelerate_synapse_types_def

lemma skeleton_GranuleCellMildAdapting:
  "skeleton GranuleCellMildAdapting_section_types = skeleton GranuleCell_section_types"
  by (simp add: skeleton_def blank_conductance_def table_defs)

lemma skeleton_GranuleCellAdapting:
  "skeleton GranuleCellAdapting_section_types = skeleton GranuleCell_section_types"
  by (simp add: skeleton_def blank_conductance_def table_defs)

lemma skeleton_GranuleCellAccelerate:
  "skeleton GranuleCellAccelerate_section_types = skeleton GranuleCell_section_types"
  by (simp add: skeleton_def blank_conductance_def table_defs)

lemma cdp5_CR:
  "cdp5_variants GranuleCell_section_types = replicate 6 ''CR''"
  "cdp5_variants GranuleCellMildAdapting_section_types = replicate 6 ''CR''"
  "cdp5_variants GranuleCellAdapting_section_types = replicate 6 ''CR''"
  by (simp_all add: cdp5_variants_def table_defs eval_nat_numeral)

lemma cdp5_CAM:
  "cdp5_variants GranuleCellAccelerate_section_types = replicate 6 ''CAM''"
  by (simp add: cdp5_variants_def table_defs eval_nat_numeral)

text \<open>
  Claim C9. The four model classes have the same \<^verbatim>\<open>synapse_types\<close>
  table, and their \<^verbatim>\<open>section_types\<close> tables have the same skeleton:
  the same section roles, synapse lists, mechanism lists and attribute keys, and the same
  values of all attributes that are not conductances. They differ at most in conductance
  values and in the variant tag of \<^verbatim>\<open>cdp5\<close>, which is
  \<^verbatim>\<open>CR\<close> at all six places of the first three classes and
  \<^verbatim>\<open>CAM\<close> at all six places of
  \<^verbatim>\<open>GranuleCellAccelerate\<close>.
\<close>

theorem model_tables_share_structure:
  "GranuleCellMildAdapting_synapse_types = GranuleCell_synapse_types \<and>
   GranuleCellAdapting_synapse_types = GranuleCell_synapse_types \<and>
   GranuleCellAccelerate_synapse_types = GranuleCell_synapse_types \<and>
   skeleton GranuleCellMildAdapting_section_types = skeleton GranuleCell_section_types \<and>
   skeleton GranuleCellAdapting_section_types = skeleton GranuleCell_section_types \<and>
   skeleton GranuleCellAccelerate_section_types = skeleton GranuleCell_section_types \<and>
   map fst GranuleCell_section_types =
     [''soma'', ''dendrites'', ''axon'', ''ascending_axon'', ''parallel_fiber'',
      ''axon_initial_segment'', ''axon_hillock''] \<and>
   cdp5_variants GranuleCell_section_types = replicate 6 ''CR'' \<and>
   cdp5_variants GranuleCellMildAdapting_section_types = replicate 6 ''CR'' \<and>
   cdp5_variants GranuleCellAdapting_section_types = replicate 6 ''CR'' \<and>
   cdp5_variants GranuleCellAccelerate_section_types = replicate 6 ''CAM''"
proof (intro conjI)
  show "GranuleCellMildAdapting_synapse_types = GranuleCell_synapse_types"
    and "GranuleCellAdapting_synapse_types = GranuleCell_synapse_types"
    and "GranuleCellAccelerate_synapse_types = GranuleCell_synapse_types"
    by (simp_all only: synapse_defs)
  show "map fst GranuleCell_section_types =
     [''soma'', ''dendrites'', ''axon'', ''ascending_axon'', ''parallel_fiber'',
      ''axon_initial_segment'', ''axon_hillock'']"
    by (simp add: GranuleCell_section_types_def)
qed (rule skeleton_GranuleCellMildAdapting skeleton_GranuleCellAdapting
    skeleton_GranuleCellAccelerate cdp5_CR cdp5_CAM)+

end
